theory Spec2Isabelle
  imports Complex_Main
begin

section \<open>JavaScript values\<close>

text \<open>
  The IoT module is TypeScript running on Node. A sensor reading's \<open>value\<close> is declared
  \<open>number | object\<close> and arrives from \<open>JSON.parse\<close>, so the validators test it with
  \<open>typeof\<close>, truthiness and comparisons. Values are modelled as the JSON values plus
  \<open>undefined\<close> and \<open>NaN\<close>. A number \<open>JNum x\<close> is a finite IEEE double, given by the
  real \<open>x\<close> it denotes: comparisons of doubles are exact, and every arithmetic
  operation rounds its exact result to a double (\<open>double\<close> below). The infinities and
  the negative zero are outside this model. An object is the list of its own properties in
  insertion order; arrays are not modelled.
\<close>

datatype js_value =
    JUndefined
  | JNull
  | JBool bool
  | JNum real
  | JNaN
  | JStr string
  | JObj "(string \<times> js_value) list"

datatype js_error =
    Error string
  | ValidationError string
  | TypeError string

fun typeof :: "js_value \<Rightarrow> string" where
  "typeof JUndefined = ''undefined''"
| "typeof JNull = ''object''"
| "typeof (JBool b) = ''boolean''"
| "typeof (JNum x) = ''number''"
| "typeof JNaN = ''number''"
| "typeof (JStr s) = ''string''"
| "typeof (JObj fs) = ''object''"

text \<open>\<open>!v\<close> is \<open>\<not> truthy v\<close>.\<close>

fun truthy :: "js_value \<Rightarrow> bool" where
  "truthy JUndefined = False"
| "truthy JNull = False"
| "truthy (JBool b) = b"
| "truthy (JNum x) = (x \<noteq> 0)"
| "truthy JNaN = False"
| "truthy (JStr s) = (s \<noteq> [])"
| "truthy (JObj fs) = True"

text \<open>
  Property access \<open>v.k\<close> for the property names the module reads (\<open>latitude\<close>,
  \<open>longitude\<close>, \<open>accuracy\<close>, \<open>type\<close>, ...): a \<open>TypeError\<close> on \<open>null\<close> and
  \<open>undefined\<close>, the property of an object, \<open>undefined\<close> when the object has none
  and on the other primitives.
\<close>

fun js_prop :: "js_value \<Rightarrow> string \<Rightarrow> js_error + js_value" where
  "js_prop JUndefined k = Inl (TypeError ''Cannot read properties of undefined'')"
| "js_prop JNull k = Inl (TypeError ''Cannot read properties of null'')"
| "js_prop (JObj fs) k = Inr (case map_of fs k of None \<Rightarrow> JUndefined | Some v \<Rightarrow> v)"
| "js_prop v k = Inr JUndefined"

text \<open>The same access where the source has already excluded \<open>null\<close> and \<open>undefined\<close>.\<close>

fun obj_field :: "js_value \<Rightarrow> string \<Rightarrow> js_value" where
  "obj_field (JObj fs) k = (case map_of fs k of None \<Rightarrow> JUndefined | Some v \<Rightarrow> v)"
| "obj_field v k = JUndefined"

text \<open>
  The built-ins of the platform that the module calls are parameters of the model:
  \<^item> \<open>Date_getTime s\<close> is \<open>new Date(s).getTime()\<close> (also \<open>Date.parse(s)\<close>) in epoch
    milliseconds, \<open>None\<close> for \<open>NaN\<close>;
  \<^item> \<open>Date_toISOString t\<close> is \<open>new Date(t).toISOString()\<close>;
  \<^item> \<open>ToString v\<close> is the string a template literal inserts for \<open>v\<close>;
  \<^item> \<open>StringToNumber s\<close> is the number a string converts to, \<open>None\<close> for \<open>NaN\<close>;
  \<^item> \<open>toUpperCase\<close> and \<open>toLowerCase\<close> are the string methods;
  \<^item> \<open>double x\<close> is the double nearest to the real \<open>x\<close> (round to nearest, ties to
    even), as a real: the value of the decimal literal \<open>x\<close>, and the result of an
    arithmetic operation whose exact result is \<open>x\<close>, within the finite range;
  \<^item> \<open>Math_log x\<close> is the double that \<open>Math.log\<close> returns for a double \<open>x > 0\<close>.
\<close>

record js_platform =
  Date_getTime :: "string \<Rightarrow> int option"
  Date_toISOString :: "int \<Rightarrow> string"
  ToString :: "js_value \<Rightarrow> string"
  StringToNumber :: "string \<Rightarrow> real option"
  toUpperCase :: "string \<Rightarrow> string"
  toLowerCase :: "string \<Rightarrow> string"
  double :: "real \<Rightarrow> real"
  Math_log :: "real \<Rightarrow> real"

text \<open>The conversion to a number that arithmetic and comparison apply (\<open>None\<close> is \<open>NaN\<close>).\<close>

fun ToNumber :: "js_platform \<Rightarrow> js_value \<Rightarrow> real option" where
  "ToNumber P JUndefined = None"
| "ToNumber P JNull = Some 0"
| "ToNumber P (JBool b) = Some (if b then 1 else 0)"
| "ToNumber P (JNum x) = Some x"
| "ToNumber P JNaN = None"
| "ToNumber P (JStr s) = StringToNumber P s"
| "ToNumber P (JObj fs) = StringToNumber P (ToString P (JObj fs))"

fun js_number :: "real option \<Rightarrow> js_value" where
  "js_number None = JNaN"
| "js_number (Some x) = JNum x"

text \<open>\<open>a * m\<close>, \<open>a / d\<close> (the source divides by non-zero literals only) and
  \<open>a + m\<close> for a double \<open>m\<close>: the exact result on the converted operand, rounded
  to a double. \<open>a > m\<close> and \<open>a < m\<close> compare exactly.\<close>

definition js_times :: "js_platform \<Rightarrow> js_value \<Rightarrow> real \<Rightarrow> js_value" where
  "js_times P a m = js_number (map_option (\<lambda>x. double P (x * m)) (ToNumber P a))"

definition js_divide :: "js_platform \<Rightarrow> js_value \<Rightarrow> real \<Rightarrow> js_value" where
  "js_divide P a d = js_number (map_option (\<lambda>x. double P (x / d)) (ToNumber P a))"

fun js_plus :: "js_platform \<Rightarrow> js_value \<Rightarrow> real \<Rightarrow> js_value" where
  "js_plus P (JStr s) m = JStr (s @ ToString P (JNum m))"
| "js_plus P (JObj fs) m = JStr (ToString P (JObj fs) @ ToString P (JNum m))"
| "js_plus P a m = js_number (map_option (\<lambda>x. double P (x + m)) (ToNumber P a))"

definition js_gt :: "js_platform \<Rightarrow> js_value \<Rightarrow> real \<Rightarrow> bool" where
  "js_gt P a m = (case ToNumber P a of None \<Rightarrow> False | Some x \<Rightarrow> x > m)"

definition js_lt :: "js_platform \<Rightarrow> js_value \<Rightarrow> real \<Rightarrow> bool" where
  "js_lt P a m = (case ToNumber P a of None \<Rightarrow> False | Some x \<Rightarrow> x < m)"

section \<open>The data model (types/sensor)\<close>

record sensor_reading =
  sensorId :: string
  sensorType :: string
  reading_value :: js_value
  reading_unit :: "string option"
  timestamp :: string
  reading_location :: "js_value option"
  metadata :: "(string \<times> js_value) list option"

record processed_data = sensor_reading +
  derivedMetrics :: "(string \<times> js_value) list"
  transformedData :: "(string \<times> js_value) list"
  qualityScore :: int
  processedAt :: string
  processingVersion :: string

datatype alert_type = QUALITY_LOW | ANOMALY_DETECTED | THRESHOLD_EXCEEDED | SENSOR_OFFLINE

datatype alert_severity = low | medium | high | critical

record data_alert =
  alert_sensorId :: string
  alert_type :: alert_type
  alert_severity :: alert_severity
  alert_message :: string
  alert_timestamp :: string
  alert_data :: "processed_data option"

record threshold =
  threshold_min :: real
  threshold_max :: real

record thresholds =
  th_temperature :: "threshold option"
  th_humidity :: "threshold option"
  th_pressure :: "threshold option"
  th_light :: "threshold option"
  th_vibration :: "threshold option"

datatype sensor_status = online | offline

record sensor_config =
  config_id :: string
  config_type :: string
  config_location :: "real \<times> real"
  config_thresholds :: "thresholds option"
  config_metadata :: "(string \<times> js_value) list option"
  config_status :: sensor_status
  config_lastSeen :: "string option"

section \<open>DataProcessor: validation\<close>

text \<open>\<open>DataProcessor.validateReading\<close>: returns normally (\<open>Inr ()\<close>) or throws.\<close>

definition validateReading :: "js_platform \<Rightarrow> sensor_reading \<Rightarrow> js_error + unit" where
  "validateReading P reading =
     (if sensorId reading = [] then Inl (Error ''Invalid sensor ID'')
      else if sensorType reading = [] then Inl (Error ''Invalid sensor type'')
      else if reading_value reading = JNull \<or> reading_value reading = JUndefined
        then Inl (Error ''Invalid sensor value'')
      else if timestamp reading = [] then Inl (Error ''Invalid timestamp'')
      else if sensorType reading = ''temperature'' then
        (if typeof (reading_value reading) \<noteq> ''number''
            \<or> js_lt P (reading_value reading) (- 50) \<or> js_gt P (reading_value reading) 150
         then Inl (Error ''Invalid temperature value'') else Inr ())
      else if sensorType reading = ''humidity'' then
        (if typeof (reading_value reading) \<noteq> ''number''
            \<or> js_lt P (reading_value reading) 0 \<or> js_gt P (reading_value reading) 100
         then Inl (Error ''Invalid humidity value'') else Inr ())
      else if sensorType reading = ''pressure'' then
        (if typeof (reading_value reading) \<noteq> ''number''
            \<or> js_lt P (reading_value reading) 0 \<or> js_gt P (reading_value reading) 2000
         then Inl (Error ''Invalid pressure value'') else Inr ())
      else if sensorType reading = ''location'' then
        (if typeof (reading_value reading) \<noteq> ''object''
            \<or> typeof (obj_field (reading_value reading) ''latitude'') \<noteq> ''number''
            \<or> typeof (obj_field (reading_value reading) ''longitude'') \<noteq> ''number''
         then Inl (Error ''Invalid location value'') else Inr ())
      else Inr ())"

section \<open>DataProcessor: quality score\<close>

text \<open>\<open>DataProcessor.isValueReasonable\<close>: "True if value is reasonable"; the body is
  \<open>return true\<close>.\<close>

definition isValueReasonable :: "sensor_reading \<Rightarrow> bool" where
  "isValueReasonable reading = True"

text \<open>
  \<open>DataProcessor.calculateQualityScore\<close>, with \<open>now\<close> the value of \<open>Date.now()\<close>.
  The age is \<open>NaN\<close> when the timestamp does not parse, and \<open>NaN > 300000\<close> is false.
\<close>

definition calculateQualityScore :: "js_platform \<Rightarrow> int \<Rightarrow> sensor_reading \<Rightarrow> int" where
  "calculateQualityScore P now reading =
     (let score0 = 100;
          score1 = (case Date_getTime P (timestamp reading) of
                      None \<Rightarrow> score0
                    | Some t \<Rightarrow> if now - t > 300000 then score0 - 20 else score0);
          score2 = (if isValueReasonable reading then score1 - 10 else score1);
          score3 = (case metadata reading of
                      None \<Rightarrow> score2 - 5
                    | Some kvs \<Rightarrow> if length kvs = 0 then score2 - 5 else score2)
      in max 0 score3)"

section \<open>DataProcessor: derived metrics and transformations\<close>

text \<open>
  \<open>DataProcessor.calculateDewPoint(humidity, 20)\<close>, operation by operation, with the
  literals 17.27 and 237.7 as doubles. \<open>Math.log\<close> of zero is minus infinity and of a
  negative number \<open>NaN\<close>; both make the result \<open>NaN\<close>. The denominator
  \<open>a - alpha\<close> is zero only for a humidity far above 100.
\<close>

definition calculateDewPoint :: "js_platform \<Rightarrow> js_value \<Rightarrow> real \<Rightarrow> js_value" where
  "calculateDewPoint P humidity temperature =
     (let a = double P 17.27; b = double P 237.7 in
      case ToNumber P humidity of
        None \<Rightarrow> JNaN
      | Some h \<Rightarrow>
          (let ratio = double P (h / 100) in
           if ratio \<le> 0 then JNaN
           else (let alpha = double P
                       (double P (double P (a * temperature) / double P (b + temperature))
                        + Math_log P ratio)
                 in JNum (double P (double P (b * alpha) / double P (a - alpha))))))"

text \<open>\<open>DataProcessor.calculateDerivedMetrics\<close>: the object \<open>metrics\<close>, property by
  property. Reading \<open>value.latitude\<close> throws on \<open>null\<close> and \<open>undefined\<close>.\<close>

definition calculateDerivedMetrics ::
  "js_platform \<Rightarrow> sensor_reading \<Rightarrow> js_error + (string \<times> js_value) list" where
  "calculateDerivedMetrics P reading =
     (if sensorType reading = ''temperature'' then
        Inr [(''celsius'', reading_value reading),
             (''fahrenheit'', js_plus P (js_divide P (js_times P (reading_value reading) 9) 5) 32),
             (''kelvin'', js_plus P (reading_value reading) (double P 273.15))]
      else if sensorType reading = ''humidity'' then
        Inr [(''relativeHumidity'', reading_value reading),
             (''dewPoint'', calculateDewPoint P (reading_value reading) 20)]
      else if sensorType reading = ''pressure'' then
        Inr [(''pascal'', reading_value reading),
             (''bar'', js_divide P (reading_value reading) 100000),
             (''atmosphere'', js_divide P (reading_value reading) 101325)]
      else if sensorType reading = ''location'' then
        (case js_prop (reading_value reading) ''latitude'' of
           Inl e \<Rightarrow> Inl e
         | Inr lat \<Rightarrow>
             (case js_prop (reading_value reading) ''longitude'' of
                Inl e \<Rightarrow> Inl e
              | Inr lon \<Rightarrow>
                  (case js_prop (reading_value reading) ''accuracy'' of
                     Inl e \<Rightarrow> Inl e
                   | Inr acc \<Rightarrow>
                       Inr [(''latitude'', lat), (''longitude'', lon),
                            (''accuracy'', if truthy acc then acc else JStr ''unknown'')])))
      else Inr [])"

definition normalizeValue :: "js_platform \<Rightarrow> sensor_reading \<Rightarrow> js_value" where
  "normalizeValue P reading =
     (if sensorType reading = ''temperature'' then
        js_divide P (js_plus P (reading_value reading) 50) 200
      else if sensorType reading = ''humidity'' then js_divide P (reading_value reading) 100
      else if sensorType reading = ''pressure'' then js_divide P (reading_value reading) 2000
      else if typeof (reading_value reading) = ''number'' then reading_value reading
      else JNum 0)"

definition shouldApplySmoothing :: "sensor_reading \<Rightarrow> bool" where
  "shouldApplySmoothing reading =
     (sensorType reading = ''temperature'' \<or> sensorType reading = ''humidity'')"

definition applySmoothing :: "sensor_reading \<Rightarrow> js_value" where
  "applySmoothing reading = reading_value reading"

definition applyTransformations ::
  "js_platform \<Rightarrow> sensor_reading \<Rightarrow> (string \<times> js_value) list" where
  "applyTransformations P reading =
     [(''originalValue'', reading_value reading),
      (''normalizedValue'', normalizeValue P reading),
      (''timestamp'', js_number (map_option real_of_int (Date_getTime P (timestamp reading)))),
      (''sensorId'', JStr (toUpperCase P (sensorId reading))),
      (''sensorType'', JStr (toLowerCase P (sensorType reading)))]
     @ (if shouldApplySmoothing reading then [(''smoothedValue'', applySmoothing reading)]
        else [])"

section \<open>DataProcessor: one reading\<close>

text \<open>
  \<open>DataProcessor.processSensorReading\<close> at the instant \<open>now\<close> of the engine's clock
  (both \<open>Date.now()\<close> in the score and \<open>new Date()\<close> for \<open>processedAt\<close>). The
  \<open>catch\<close> block logs the error and throws it again, so an exception of a step is the
  result of the call; the log line is the \<open>Log_error_reading\<close> of \<open>processQueue\<close>.
\<close>

definition processSensorReading ::
  "js_platform \<Rightarrow> int \<Rightarrow> sensor_reading \<Rightarrow> js_error + processed_data" where
  "processSensorReading P now reading =
     (case validateReading P reading of
        Inl e \<Rightarrow> Inl e
      | Inr u \<Rightarrow>
          (case calculateDerivedMetrics P reading of
             Inl e \<Rightarrow> Inl e
           | Inr metrics \<Rightarrow>
               Inr \<lparr> sensorId = sensorId reading,
                     sensorType = sensorType reading,
                     reading_value = reading_value reading,
                     reading_unit = reading_unit reading,
                     timestamp = timestamp reading,
                     reading_location = reading_location reading,
                     metadata = metadata reading,
                     derivedMetrics = metrics,
                     transformedData = applyTransformations P reading,
                     qualityScore = calculateQualityScore P now reading,
                     processedAt = Date_toISOString P now,
                     processingVersion = ''1.0.0'' \<rparr>))"

section \<open>DataProcessor: alerts of a processed batch\<close>

text \<open>\<open>DataProcessor.isAnomaly\<close>: the body is \<open>return false\<close>.\<close>

definition isAnomaly :: "processed_data \<Rightarrow> bool" where
  "isAnomaly pd = False"

definition quality_alert :: "js_platform \<Rightarrow> processed_data \<Rightarrow> data_alert" where
  "quality_alert P pd =
     \<lparr> alert_sensorId = sensorId pd,
       alert_type = QUALITY_LOW,
       alert_severity = medium,
       alert_message = ''Low quality score: '' @ ToString P (JNum (real_of_int (qualityScore pd))),
       alert_timestamp = timestamp pd,
       alert_data = Some pd \<rparr>"

definition anomaly_alert :: "processed_data \<Rightarrow> data_alert" where
  "anomaly_alert pd =
     \<lparr> alert_sensorId = sensorId pd,
       alert_type = ANOMALY_DETECTED,
       alert_severity = high,
       alert_message = ''Anomalous reading detected'',
       alert_timestamp = timestamp pd,
       alert_data = Some pd \<rparr>"

text \<open>\<open>DataProcessor.checkForAlerts\<close>: the loop over the batch, pushing in order.\<close>

fun DataProcessor_checkForAlerts :: "js_platform \<Rightarrow> processed_data list \<Rightarrow> data_alert list" where
  "DataProcessor_checkForAlerts P [] = []"
| "DataProcessor_checkForAlerts P (pd # rest) =
     (if qualityScore pd < 70 then [quality_alert P pd] else [])
     @ (if isAnomaly pd then [anomaly_alert pd] else [])
     @ DataProcessor_checkForAlerts P rest"

section \<open>DataProcessor: the queue\<close>

text \<open>The fields of the class, and \<open>awaited\<close>: the settled promises of the batch that
  a suspended \<open>processQueue\<close> is awaiting, if there is one.\<close>

record processor_state =
  processingQueue :: "sensor_reading list"
  isProcessing :: bool
  batchSize :: nat
  processingInterval :: nat
  intervalActive :: bool
  awaited :: "(js_error + processed_data) list option"

text \<open>What a flush logs and emits, in order. The two \<open>emit\<close>s call the handlers
  registered in the constructor, which log a count.\<close>

datatype processor_event =
    Log_info_processing_batch nat
  | Log_error_reading js_error
  | Log_error_batch js_error
  | Emit_dataProcessed "processed_data list"
  | Log_info_processed nat
  | Emit_alertGenerated "data_alert list"
  | Log_warn_alerts nat

text \<open>\<open>Promise.all\<close> over promises that are all settled: the results in order, or
  the first rejection.\<close>

fun promise_all :: "(js_error + 'a) list \<Rightarrow> js_error + 'a list" where
  "promise_all [] = Inr []"
| "promise_all (Inl e # rest) = Inl e"
| "promise_all (Inr x # rest) =
     (case promise_all rest of Inl e \<Rightarrow> Inl e | Inr xs \<Rightarrow> Inr (x # xs))"

fun reading_error_logs :: "(js_error + 'a) list \<Rightarrow> processor_event list" where
  "reading_error_logs [] = []"
| "reading_error_logs (Inl e # rest) = Log_error_reading e # reading_error_logs rest"
| "reading_error_logs (Inr x # rest) = reading_error_logs rest"

text \<open>\<open>Array.prototype.splice(0, n)\<close>: the removed elements and what stays.\<close>

definition splice0 :: "nat \<Rightarrow> 'a list \<Rightarrow> 'a list \<times> 'a list" where
  "splice0 n xs = (take n xs, drop n xs)"

text \<open>
  \<open>DataProcessor.processQueue\<close> is an \<open>async\<close> function: a call runs it up to
  \<open>await Promise.all(...)\<close> and returns to the caller; what follows the \<open>await\<close> runs
  later, as a continuation.

  \<open>processQueue_call\<close> is the call. No step of \<open>processSensorReading\<close> awaits, so the
  batch is mapped synchronously (each failing reading logs its error), and the call
  returns with \<open>isProcessing\<close> set and the promises awaited.
\<close>

definition processQueue_call ::
  "js_platform \<Rightarrow> int \<Rightarrow> processor_state \<Rightarrow> processor_state \<times> processor_event list" where
  "processQueue_call P now st =
     (if isProcessing st \<or> length (processingQueue st) = 0 then (st, [])
      else
        (let (batch, remaining) = splice0 (batchSize st) (processingQueue st);
             results = map (processSensorReading P now) batch
         in (st \<lparr> processingQueue := remaining, isProcessing := True,
                   awaited := Some results \<rparr>,
             Log_info_processing_batch (length batch) # reading_error_logs results)))"

text \<open>
  \<open>processQueue_resume\<close> is the continuation of the suspended call: the rest of the
  \<open>try\<close> block when every promise is fulfilled, the \<open>catch\<close> block on the first
  rejection, and \<open>finally\<close>, which resets the flag.
\<close>

definition processQueue_resume ::
  "js_platform \<Rightarrow> processor_state \<Rightarrow> processor_state \<times> processor_event list" where
  "processQueue_resume P st =
     (case awaited st of
        None \<Rightarrow> (st, [])
      | Some results \<Rightarrow>
          (st \<lparr> isProcessing := False, awaited := None \<rparr>,
           case promise_all results of
             Inl e \<Rightarrow> [Log_error_batch e]
           | Inr processedBatch \<Rightarrow>
               (let alerts = DataProcessor_checkForAlerts P processedBatch
                in [Emit_dataProcessed processedBatch,
                    Log_info_processed (length processedBatch)]
                   @ (if length alerts > 0
                      then [Emit_alertGenerated alerts, Log_warn_alerts (length alerts)]
                      else []))))"

text \<open>\<open>processQueue\<close> is a call followed by its own continuation, that is, one whole
  execution of the function from the call to the end of \<open>finally\<close>.\<close>

definition processQueue ::
  "js_platform \<Rightarrow> int \<Rightarrow> processor_state \<Rightarrow> processor_state \<times> processor_event list" where
  "processQueue P now st =
     (if isProcessing st \<or> length (processingQueue st) = 0 then (st, [])
      else
        (let (st1, ev1) = processQueue_call P now st;
             (st2, ev2) = processQueue_resume P st1
         in (st2, ev1 @ ev2)))"

text \<open>\<open>DataProcessor.addToQueue\<close>: the call of \<open>processQueue\<close> is not awaited, so
  \<open>addToQueue\<close> returns when that call returns.\<close>

definition addToQueue ::
  "js_platform \<Rightarrow> int \<Rightarrow> processor_state \<Rightarrow> sensor_reading
     \<Rightarrow> processor_state \<times> processor_event list" where
  "addToQueue P now st reading =
     (let st' = st \<lparr> processingQueue := processingQueue st @ [reading] \<rparr>
      in if length (processingQueue st') \<ge> batchSize st' then processQueue_call P now st'
         else (st', []))"

text \<open>One firing of the interval timer of \<open>startProcessing\<close>, and \<open>stopProcessing\<close>.\<close>

definition timerTick ::
  "js_platform \<Rightarrow> int \<Rightarrow> processor_state \<Rightarrow> processor_state \<times> processor_event list" where
  "timerTick P now st =
     (if intervalActive st \<and> length (processingQueue st) > 0 \<and> \<not> isProcessing st
      then processQueue_call P now st else (st, []))"

definition stopProcessing :: "processor_state \<Rightarrow> processor_state" where
  "stopProcessing st = st \<lparr> intervalActive := False \<rparr>"

text \<open>The processor as its constructor leaves it.\<close>

definition new_DataProcessor :: processor_state where
  "new_DataProcessor =
     \<lparr> processingQueue = [], isProcessing = False, batchSize = 100,
       processingInterval = 5000, intervalActive = True, awaited = None \<rparr>"

text \<open>
  What happens to the processor, one step at a time: a reading is enqueued at an instant
  of the clock, the continuation of a suspended \<open>processQueue\<close> runs, or the timer
  fires at an instant. \<open>run\<close> performs a list of steps and collects the events.
\<close>

datatype processor_step =
    Enqueue int sensor_reading
  | Continuation
  | Timer int

fun step ::
  "js_platform \<Rightarrow> processor_state \<Rightarrow> processor_step
     \<Rightarrow> processor_state \<times> processor_event list" where
  "step P st (Enqueue now reading) = addToQueue P now st reading"
| "step P st Continuation = processQueue_resume P st"
| "step P st (Timer now) = timerTick P now st"

fun run ::
  "js_platform \<Rightarrow> processor_state \<Rightarrow> processor_step list
     \<Rightarrow> processor_state \<times> processor_event list" where
  "run P st [] = (st, [])"
| "run P st (s # ss) =
     (let (st1, ev1) = step P st s;
          (st2, ev2) = run P st1 ss
      in (st2, ev1 @ ev2))"

text \<open>The readings a list of steps enqueues, in order, and whether it has a timer step.\<close>

fun enqueued :: "processor_step list \<Rightarrow> sensor_reading list" where
  "enqueued [] = []"
| "enqueued (Enqueue now reading # ss) = reading # enqueued ss"
| "enqueued (s # ss) = enqueued ss"

fun is_timer :: "processor_step \<Rightarrow> bool" where
  "is_timer (Timer now) = True"
| "is_timer s = False"

fun is_flush_start :: "processor_event \<Rightarrow> bool" where
  "is_flush_start (Log_info_processing_batch n) = True"
| "is_flush_start e = False"

definition flush_count :: "processor_event list \<Rightarrow> nat" where
  "flush_count evs = length (filter is_flush_start evs)"

text \<open>The events of a whole flush that runs, written out from the results of its
  readings: \<open>processQueue_runs\<close> below proves that these are what \<open>processQueue\<close>
  logs and emits.\<close>

definition flush_events ::
  "js_platform \<Rightarrow> (js_error + processed_data) list \<Rightarrow> processor_event list" where
  "flush_events P results =
     Log_info_processing_batch (length results) # reading_error_logs results
     @ (case promise_all results of
          Inl e \<Rightarrow> [Log_error_batch e]
        | Inr processedBatch \<Rightarrow>
            [Emit_dataProcessed processedBatch, Log_info_processed (length processedBatch)]
            @ (if DataProcessor_checkForAlerts P processedBatch \<noteq> []
               then [Emit_alertGenerated (DataProcessor_checkForAlerts P processedBatch),
                     Log_warn_alerts (length (DataProcessor_checkForAlerts P processedBatch))]
               else []))"

text \<open>The part of these events that the continuation produces.\<close>

definition resume_events ::
  "js_platform \<Rightarrow> (js_error + processed_data) list \<Rightarrow> processor_event list" where
  "resume_events P results =
     (case promise_all results of
        Inl e \<Rightarrow> [Log_error_batch e]
      | Inr processedBatch \<Rightarrow>
          [Emit_dataProcessed processedBatch, Log_info_processed (length processedBatch)]
          @ (if DataProcessor_checkForAlerts P processedBatch \<noteq> []
             then [Emit_alertGenerated (DataProcessor_checkForAlerts P processedBatch),
                   Log_warn_alerts (length (DataProcessor_checkForAlerts P processedBatch))]
             else []))"

section \<open>SensorDataCollector\<close>

definition js_ge :: "js_platform \<Rightarrow> js_value \<Rightarrow> real \<Rightarrow> bool" where
  "js_ge P a m = (case ToNumber P a of None \<Rightarrow> False | Some x \<Rightarrow> x \<ge> m)"

definition js_le :: "js_platform \<Rightarrow> js_value \<Rightarrow> real \<Rightarrow> bool" where
  "js_le P a m = (case ToNumber P a of None \<Rightarrow> False | Some x \<Rightarrow> x \<le> m)"

text \<open>
  \<open>SensorDataCollector.validateSensorReading\<close>. The loop over \<open>requiredFields\<close>
  returns false on the first field that is falsy: an empty string, \<open>undefined\<close>,
  \<open>null\<close>, \<open>NaN\<close> and also the number 0.
\<close>

definition SensorDataCollector_validateSensorReading ::
  "js_platform \<Rightarrow> sensor_reading \<Rightarrow> bool" where
  "SensorDataCollector_validateSensorReading P reading =
     (if sensorId reading = [] then False
      else if sensorType reading = [] then False
      else if truthy (reading_value reading) = False then False
      else if timestamp reading = [] then False
      else if sensorType reading = ''temperature'' then
        typeof (reading_value reading) = ''number''
          \<and> js_ge P (reading_value reading) (- 50) \<and> js_le P (reading_value reading) 150
      else if sensorType reading = ''humidity'' then
        typeof (reading_value reading) = ''number''
          \<and> js_ge P (reading_value reading) 0 \<and> js_le P (reading_value reading) 100
      else if sensorType reading = ''pressure'' then
        typeof (reading_value reading) = ''number''
          \<and> js_ge P (reading_value reading) 0 \<and> js_le P (reading_value reading) 2000
      else if sensorType reading = ''light'' then
        typeof (reading_value reading) = ''number'' \<and> js_ge P (reading_value reading) 0
      else if sensorType reading = ''vibration'' then
        typeof (reading_value reading) = ''number'' \<and> js_ge P (reading_value reading) 0
      else if sensorType reading = ''location'' then
        typeof (reading_value reading) = ''object''
          \<and> typeof (obj_field (reading_value reading) ''latitude'') = ''number''
          \<and> typeof (obj_field (reading_value reading) ''longitude'') = ''number''
      else True)"

text \<open>\<open>thresholds[reading.sensorType]\<close> on the declared shape of \<open>thresholds\<close>.\<close>

definition threshold_for :: "thresholds \<Rightarrow> string \<Rightarrow> threshold option" where
  "threshold_for ths ty =
     (if ty = ''temperature'' then th_temperature ths
      else if ty = ''humidity'' then th_humidity ths
      else if ty = ''pressure'' then th_pressure ths
      else if ty = ''light'' then th_light ths
      else if ty = ''vibration'' then th_vibration ths
      else None)"

text \<open>The object literal \<open>alert\<close> of \<open>SensorDataCollector.checkForAlerts\<close>.\<close>

definition sensor_alert :: "sensor_reading \<Rightarrow> threshold \<Rightarrow> string \<Rightarrow> js_value" where
  "sensor_alert reading th alertMessage =
     JObj [(''sensorId'', JStr (sensorId reading)),
           (''sensorType'', JStr (sensorType reading)),
           (''value'', reading_value reading),
           (''threshold'', JObj [(''min'', JNum (threshold_min th)),
                                 (''max'', JNum (threshold_max th))]),
           (''message'', JStr alertMessage),
           (''timestamp'', JStr (timestamp reading)),
           (''severity'', JStr ''high'')]"

text \<open>
  \<open>SensorDataCollector.checkForAlerts\<close> over the registry \<open>sensors\<close>
  (a \<open>Map\<close> from sensor id to configuration): the alert it emits as \<open>sensorAlert\<close>,
  if any.
\<close>

definition SensorDataCollector_checkForAlerts ::
  "js_platform \<Rightarrow> (string \<rightharpoonup> sensor_config) \<Rightarrow> sensor_reading \<Rightarrow> js_value option" where
  "SensorDataCollector_checkForAlerts P sensors reading =
     (case sensors (sensorId reading) of
        None \<Rightarrow> None
      | Some sensorConfig \<Rightarrow>
          (case config_thresholds sensorConfig of
             None \<Rightarrow> None
           | Some ths \<Rightarrow>
               (case threshold_for ths (sensorType reading) of
                  None \<Rightarrow> None
                | Some th \<Rightarrow>
                    if js_gt P (reading_value reading) (threshold_max th) then
                      Some (sensor_alert reading th
                        (sensorType reading @ '' exceeded maximum threshold: ''
                          @ ToString P (reading_value reading) @ '' > ''
                          @ ToString P (JNum (threshold_max th))))
                    else if js_lt P (reading_value reading) (threshold_min th) then
                      Some (sensor_alert reading th
                        (sensorType reading @ '' below minimum threshold: ''
                          @ ToString P (reading_value reading) @ '' < ''
                          @ ToString P (JNum (threshold_min th))))
                    else None)))"

definition registerSensor ::
  "(string \<rightharpoonup> sensor_config) \<Rightarrow> sensor_config \<Rightarrow> (string \<rightharpoonup> sensor_config)" where
  "registerSensor sensors sensorConfig = sensors(config_id sensorConfig \<mapsto> sensorConfig)"

definition unregisterSensor ::
  "(string \<rightharpoonup> sensor_config) \<Rightarrow> string \<Rightarrow> (string \<rightharpoonup> sensor_config)" where
  "unregisterSensor sensors sid = sensors(sid := None)"

text \<open>What the collector logs and emits while it handles one \<open>sensorData\<close> event.
  \<open>handleSensorAlert\<close> is the collector's own listener for \<open>sensorAlert\<close>.\<close>

datatype collector_event =
    Log_warn_invalid_reading string
  | Emit_sensorAlert js_value
  | Log_warn_sensor_alert js_value
  | Log_info_alert_to_blockchain js_value
  | Emit_alertNotification js_value
  | Log_debug_storing sensor_reading
  | Emit_processedData sensor_reading

definition handleSensorAlert :: "js_value \<Rightarrow> collector_event list" where
  "handleSensorAlert alert =
     [Log_warn_sensor_alert (obj_field alert ''message''),
      Log_info_alert_to_blockchain (obj_field alert ''sensorId''),
      Emit_alertNotification alert]"

definition processSensorData ::
  "js_platform \<Rightarrow> (string \<rightharpoonup> sensor_config) \<Rightarrow> sensor_reading \<Rightarrow> collector_event list" where
  "processSensorData P sensors sensorReading =
     (if SensorDataCollector_validateSensorReading P sensorReading = False
      then [Log_warn_invalid_reading (sensorId sensorReading)]
      else
        (case SensorDataCollector_checkForAlerts P sensors sensorReading of
           None \<Rightarrow> []
         | Some alert \<Rightarrow> Emit_sensorAlert alert # handleSensorAlert alert)
        @ [Log_debug_storing sensorReading, Emit_processedData sensorReading])"

section \<open>ChainTraceIoTModule: the wiring of collector and processor\<close>

text \<open>
  The collector emits \<open>sensorData\<close> for every MQTT message, before any validation. Its
  listeners run in the order of registration: the collector's own \<open>processSensorData\<close>
  (registered in its constructor), then the module's listener, which is
  \<open>this.dataProcessor.addToQueue(reading)\<close>.
\<close>

record module_state =
  collector_sensors :: "string \<rightharpoonup> sensor_config"
  dataProcessor :: processor_state

datatype module_event = Collector collector_event | Processor processor_event

definition emit_sensorData ::
  "js_platform \<Rightarrow> int \<Rightarrow> module_state \<Rightarrow> sensor_reading \<Rightarrow> module_state \<times> module_event list" where
  "emit_sensorData P now ms reading =
     (let cevs = processSensorData P (collector_sensors ms) reading;
          (ps, pevs) = addToQueue P now (dataProcessor ms) reading
      in (ms \<lparr> dataProcessor := ps \<rparr>, map Collector cevs @ map Processor pevs))"

section \<open>SensorDataValidator\<close>

text \<open>\<open>SensorDataValidator.validateTimestamp\<close>, with \<open>now\<close> the value of
  \<open>new Date().getTime()\<close>. No other function of the module calls it.\<close>

definition validateTimestamp :: "js_platform \<Rightarrow> int \<Rightarrow> string \<Rightarrow> js_error + unit" where
  "validateTimestamp P now ts =
     (if ts = [] then Inl (ValidationError ''Timestamp is required'')
      else
        (case Date_getTime P ts of
           None \<Rightarrow> Inl (ValidationError ''Invalid timestamp format'')
         | Some t \<Rightarrow>
             (let diff = t - now in
              if diff > 3600000
                then Inl (ValidationError ''Timestamp cannot be more than 1 hour in the future'')
              else if diff < - 2592000000
                then Inl (ValidationError ''Timestamp cannot be more than 30 days in the past'')
              else Inr ())))"


section \<open>A sample platform and sample readings\<close>

text \<open>
  An extract of Node's built-ins on the strings and numbers of the scenarios below: the
  listed instants and their ISO-8601 renderings, the listed numbers and their decimal
  renderings, the case mappings of ASCII letters, and the roundings to a double of the
  exact results that occur. Arguments outside the tables get a default and are not used;
  \<open>double\<close> returns them unchanged, as it does every double.
\<close>

definition sample_dates :: "(string \<times> int) list" where
  "sample_dates =
     [(''2024-01-01T12:00:00.000Z'', 1704110400000),
      (''2024-01-01T12:30:00.000Z'', 1704112200000),
      (''2024-01-01T14:00:00.000Z'', 1704117600000),
      (''2024-01-01T11:00:00.000Z'', 1704106800000),
      (''2023-11-01T00:00:00.000Z'', 1698796800000)]"

definition sample_numbers :: "(real \<times> string) list" where
  "sample_numbers =
     [(0, ''0''), (22.5, ''22.5''), (65, ''65''), (69, ''69''), (70, ''70''), (85, ''85''),
      (200, ''200''), (950, ''950''), (1050, ''1050''), (1100, ''1100''), (2500, ''2500'')]"

fun sample_ToString :: "js_value \<Rightarrow> string" where
  "sample_ToString JUndefined = ''undefined''"
| "sample_ToString JNull = ''null''"
| "sample_ToString (JBool b) = (if b then ''true'' else ''false'')"
| "sample_ToString (JNum x) = (case map_of sample_numbers x of None \<Rightarrow> [] | Some s \<Rightarrow> s)"
| "sample_ToString JNaN = ''NaN''"
| "sample_ToString (JStr s) = s"
| "sample_ToString (JObj fs) = ''[object Object]''"

definition ascii_upper :: "char \<Rightarrow> char" where
  "ascii_upper c =
     (case map_of (zip ''abcdefghijklmnopqrstuvwxyz'' ''ABCDEFGHIJKLMNOPQRSTUVWXYZ'') c of
        None \<Rightarrow> c | Some d \<Rightarrow> d)"

definition ascii_lower :: "char \<Rightarrow> char" where
  "ascii_lower c =
     (case map_of (zip ''ABCDEFGHIJKLMNOPQRSTUVWXYZ'' ''abcdefghijklmnopqrstuvwxyz'') c of
        None \<Rightarrow> c | Some d \<Rightarrow> d)"

text \<open>The exact results that are not doubles, with the double nearest to each: the literal
  273.15; 72.5 / 200; for the reading 36.6 (the double nearest to 36.6) the product with
  9, its quotient by 5, the sum with 273.15, the sum with 50 and its quotient by 200; and
  10 / 200.\<close>

definition sample_doubles :: "(real \<times> real) list" where
  "sample_doubles =
     [(273.15, 2402652809016115 / 8796093022208),
      (29 / 80, 6530219459687219 / 18014398509481984),
      (46358928664245045 / 140737488355328, 5794866083030631 / 17592186044416),
      (5794866083030631 / 87960930222080, 4635892866424505 / 70368744177664),
      (43593437018062845 / 140737488355328, 1239 / 4),
      (12187866491571405 / 140737488355328, 3046966622892851 / 35184372088832),
      (3046966622892851 / 7036874417766400, 7800234554605699 / 18014398509481984),
      (1 / 20, 3602879701896397 / 72057594037927936)]"

definition sample_platform :: js_platform where
  "sample_platform =
     \<lparr> Date_getTime = map_of sample_dates,
       Date_toISOString =
         (\<lambda>t. case map_of (map (\<lambda>(s, t). (t, s)) sample_dates) t of
                None \<Rightarrow> [] | Some s \<Rightarrow> s),
       ToString = sample_ToString,
       StringToNumber = map_of (map (\<lambda>(x, s). (s, x)) sample_numbers),
       toUpperCase = map ascii_upper,
       toLowerCase = map ascii_lower,
       double = (\<lambda>x. case map_of sample_doubles x of None \<Rightarrow> x | Some d \<Rightarrow> d),
       Math_log = (\<lambda>x. case map_of [(1, 0)] x of None \<Rightarrow> 0 | Some y \<Rightarrow> y) \<rparr>"

text \<open>The engine's clock in the scenarios: 2024-01-01T12:00:00.000Z.\<close>

definition sample_now :: int where
  "sample_now = 1704110400000"

text \<open>Scenario 1 of the specification: a temperature of 22.5 stamped with the current
  instant, no metadata.\<close>

definition reading_fresh :: sensor_reading where
  "reading_fresh =
     \<lparr> sensorId = ''TEMP001'', sensorType = ''temperature'', reading_value = JNum 22.5,
       reading_unit = None, timestamp = ''2024-01-01T12:00:00.000Z'',
       reading_location = None, metadata = None \<rparr>"

text \<open>The same reading one hour old, half an hour ahead of the clock, two hours ahead
  of the clock, and with the value 0.\<close>

definition reading_stale :: sensor_reading where
  "reading_stale = reading_fresh \<lparr> timestamp := ''2024-01-01T11:00:00.000Z'' \<rparr>"

definition reading_ahead :: sensor_reading where
  "reading_ahead = reading_fresh \<lparr> timestamp := ''2024-01-01T12:30:00.000Z'' \<rparr>"

definition reading_future :: sensor_reading where
  "reading_future = reading_fresh \<lparr> timestamp := ''2024-01-01T14:00:00.000Z'' \<rparr>"

definition reading_zero :: sensor_reading where
  "reading_zero = reading_fresh \<lparr> reading_value := JNum 0 \<rparr>"

text \<open>Temperatures of -40 and of 36.6 (the double nearest to 36.6).\<close>

definition reading_minus_40 :: sensor_reading where
  "reading_minus_40 = reading_fresh \<lparr> reading_value := JNum (- 40) \<rparr>"

definition reading_36_6 :: sensor_reading where
  "reading_36_6 =
     reading_fresh \<lparr> reading_value := JNum (5150992073805005 / 140737488355328) \<rparr>"

text \<open>Scenario 2: a humidity of 200.\<close>

definition reading_humidity_200 :: sensor_reading where
  "reading_humidity_200 =
     \<lparr> sensorId = ''HUM001'', sensorType = ''humidity'', reading_value = JNum 200,
       reading_unit = None, timestamp = ''2024-01-01T12:00:00.000Z'',
       reading_location = None, metadata = None \<rparr>"

text \<open>Scenario 3: the sensor PRESSURE1 registered with the pressure thresholds 950 and
  1050, and its readings 1100 and 2500.\<close>

definition config_pressure1 :: sensor_config where
  "config_pressure1 =
     \<lparr> config_id = ''PRESSURE1'', config_type = ''pressure'', config_location = (0, 0),
       config_thresholds =
         Some \<lparr> th_temperature = None, th_humidity = None,
                th_pressure = Some \<lparr> threshold_min = 950, threshold_max = 1050 \<rparr>,
                th_light = None, th_vibration = None \<rparr>,
       config_metadata = None, config_status = online, config_lastSeen = None \<rparr>"

definition sample_sensors :: "string \<rightharpoonup> sensor_config" where
  "sample_sensors = registerSensor Map.empty config_pressure1"

definition reading_pressure_1100 :: sensor_reading where
  "reading_pressure_1100 =
     \<lparr> sensorId = ''PRESSURE1'', sensorType = ''pressure'', reading_value = JNum 1100,
       reading_unit = None, timestamp = ''2024-01-01T12:00:00.000Z'',
       reading_location = None, metadata = None \<rparr>"

definition reading_pressure_2500 :: sensor_reading where
  "reading_pressure_2500 = reading_pressure_1100 \<lparr> reading_value := JNum 2500 \<rparr>"

text \<open>The module as constructed, with PRESSURE1 registered.\<close>

definition sample_module :: module_state where
  "sample_module = \<lparr> collector_sensors = sample_sensors, dataProcessor = new_DataProcessor \<rparr>"

text \<open>A processed reading with a given quality score, for the alert boundary.\<close>

definition pd_with_score :: "int \<Rightarrow> processed_data" where
  "pd_with_score n =
     \<lparr> sensorId = ''TEMP001'', sensorType = ''temperature'', reading_value = JNum 22.5,
       reading_unit = None, timestamp = ''2024-01-01T12:00:00.000Z'',
       reading_location = None, metadata = None, derivedMetrics = [], transformedData = [],
       qualityScore = n, processedAt = ''2024-01-01T12:00:00.000Z'',
       processingVersion = ''1.0.0'' \<rparr>"

text \<open>A processor whose queue holds scenario 1 and scenario 2, and a processor with the
  batch size 3 of the batcher scenario.\<close>

definition queue_good_bad :: processor_state where
  "queue_good_bad = new_DataProcessor \<lparr> processingQueue := [reading_fresh, reading_humidity_200] \<rparr>"

text \<open>A processor whose queue holds the reading one hour old and scenario 2.\<close>

definition queue_stale_bad :: processor_state where
  "queue_stale_bad = new_DataProcessor \<lparr> processingQueue := [reading_stale, reading_humidity_200] \<rparr>"

definition processor_batch3 :: processor_state where
  "processor_batch3 = new_DataProcessor \<lparr> batchSize := 3 \<rparr>"

text \<open>Six readings enqueued with nothing in between; five readings with the
  continuation after the third; a processor of batch size 3 that holds one reading; and a
  processor suspended on a batch of two processed readings, of scores 70 and 69.\<close>

definition six_enqueues :: "processor_step list" where
  "six_enqueues =
     [Enqueue sample_now reading_fresh, Enqueue sample_now reading_stale,
      Enqueue sample_now reading_zero, Enqueue sample_now reading_ahead,
      Enqueue sample_now reading_future, Enqueue sample_now reading_minus_40]"

definition five_enqueues_resumed :: "processor_step list" where
  "five_enqueues_resumed =
     [Enqueue sample_now reading_fresh, Enqueue sample_now reading_stale,
      Enqueue sample_now reading_zero, Continuation, Enqueue sample_now reading_ahead,
      Enqueue sample_now reading_future]"

definition queue_of_one :: processor_state where
  "queue_of_one = processor_batch3 \<lparr> processingQueue := [reading_fresh] \<rparr>"

definition awaiting_70_69 :: processor_state where
  "awaiting_70_69 =
     new_DataProcessor \<lparr> isProcessing := True,
                         awaited := Some (map Inr [pd_with_score 70, pd_with_score 69]) \<rparr>"

section \<open>Evaluation rules\<close>

lemmas sample_defs = sample_platform_def sample_dates_def sample_numbers_def sample_now_def
  sample_doubles_def reading_minus_40_def reading_36_6_def
  reading_fresh_def reading_stale_def reading_ahead_def reading_future_def reading_zero_def
  reading_humidity_200_def config_pressure1_def sample_sensors_def reading_pressure_1100_def
  reading_pressure_2500_def sample_module_def new_DataProcessor_def

lemmas processing_defs = processSensorReading_def validateReading_def
  calculateDerivedMetrics_def applyTransformations_def normalizeValue_def
  shouldApplySmoothing_def applySmoothing_def calculateQualityScore_def isValueReasonable_def
  js_lt_def js_gt_def js_ge_def js_le_def js_times_def js_divide_def
  ascii_upper_def ascii_lower_def

section \<open>The quality score\<close>

text \<open>
  The score as a closed formula: 100, less 20 for a reading older than five minutes, less
  10 when \<open>isValueReasonable\<close> holds (it always does), less 5 for absent or empty
  metadata.
\<close>

lemma calculateQualityScore_formula:
  "calculateQualityScore P now reading =
     100
     - (case Date_getTime P (timestamp reading) of
          None \<Rightarrow> 0 | Some t \<Rightarrow> if now - t > 300000 then 20 else 0)
     - (if isValueReasonable reading then 10 else 0)
     - (if metadata reading = None \<or> metadata reading = Some [] then 5 else 0)"
  by (simp add: calculateQualityScore_def isValueReasonable_def Let_def
           split: option.split)

text \<open>
  Claim C1. The claim: the score starts at 100 and loses 20 only for a reading older than
  five minutes, 10 only when the value fails the reasonableness check, and 5 only when the
  metadata is absent or empty, so that a fresh, in-range reading without metadata scores
  95. The code subtracts the 10 when \<open>isValueReasonable\<close> returns true, which it always
  does: every reading that is at most five minutes old and has no metadata (absent or
  empty) scores 85.
\<close>

theorem quality_score_fresh_without_metadata:
  assumes "Date_getTime P (timestamp reading) = Some t" and "now - t \<le> 300000"
    and "metadata reading = None \<or> metadata reading = Some []"
  shows "calculateQualityScore P now reading = 85"
  using assms by (auto simp: calculateQualityScore_def isValueReasonable_def)

theorem quality_score_fresh_without_metadata_witness:
  "Date_getTime sample_platform (timestamp reading_fresh) = Some sample_now
   \<and> sample_now - sample_now \<le> 300000
   \<and> metadata reading_fresh = None
   \<and> validateReading sample_platform reading_fresh = Inr ()
   \<and> calculateQualityScore sample_platform sample_now reading_fresh = 85
   \<and> calculateQualityScore sample_platform sample_now reading_fresh \<noteq> 95"
  using quality_score_fresh_without_metadata
          [of sample_platform reading_fresh sample_now sample_now]
  by (simp add: sample_defs validateReading_def js_lt_def js_gt_def)

text \<open>
  Claim C10. For every reading and every evaluation instant the score is at least 65: the
  deductions are at most 20 + 10 + 5, so the floor \<open>Math.max(0, score)\<close> never binds.
\<close>

theorem quality_score_at_least_65:
  "65 \<le> calculateQualityScore P now reading"
  by (simp add: calculateQualityScore_def isValueReasonable_def Let_def
           split: option.split)

text \<open>The bound is met by a reading one hour old without metadata.\<close>

theorem quality_score_at_least_65_witness:
  "65 \<le> calculateQualityScore sample_platform sample_now reading_stale
   \<and> calculateQualityScore sample_platform sample_now reading_stale = 65"
  using quality_score_at_least_65 [of sample_platform sample_now reading_stale]
  by (simp add: calculateQualityScore_def isValueReasonable_def sample_defs)

section \<open>Derived metrics of a temperature reading\<close>




section \<open>The collector and the value 0\<close>

text \<open>
  Claim C9, as amended. For every reading whose value is exactly 0, the collector's
  \<open>validateSensorReading\<close> returns false, because the presence of the required fields
  is tested by truthiness, and the collector's \<open>processSensorData\<close> drops the reading
  with a warning: no alert check, no storing, no \<open>processedData\<close> event.
\<close>

theorem zero_value_rejected_by_collector:
  assumes "reading_value reading = JNum 0"
  shows "SensorDataCollector_validateSensorReading P reading = False
         \<and> processSensorData P sensors reading = [Log_warn_invalid_reading (sensorId reading)]"
  using assms
  by (simp add: SensorDataCollector_validateSensorReading_def processSensorData_def)

text \<open>A temperature of 0 degrees, a value inside the accepted range.\<close>

theorem zero_value_rejected_by_collector_witness:
  "reading_value reading_zero = JNum 0
   \<and> SensorDataCollector_validateSensorReading sample_platform reading_zero = False
   \<and> processSensorData sample_platform sample_sensors reading_zero
        = [Log_warn_invalid_reading ''TEMP001'']"
  using zero_value_rejected_by_collector [of reading_zero sample_platform sample_sensors]
  by (simp add: sample_defs)

text \<open>
  Claim C9 as stated says that such a reading is rejected before it reaches the buffer.
  The module enqueues every reading of a \<open>sensorData\<close> event, whatever the collector's
  validation said: the temperature of 0 degrees is in the processor's queue after the
  event, and the processor's own \<open>validateReading\<close> accepts it.
\<close>

theorem zero_value_reaches_the_buffer:
  "SensorDataCollector_validateSensorReading sample_platform reading_zero = False
   \<and> processingQueue (dataProcessor
        (fst (emit_sensorData sample_platform sample_now sample_module reading_zero)))
       = [reading_zero]
   \<and> validateReading sample_platform reading_zero = Inr ()"
  by (simp add: emit_sensorData_def addToQueue_def processSensorData_def
        SensorDataCollector_validateSensorReading_def validateReading_def js_lt_def js_gt_def
        sample_defs)

text \<open>In general, below the batch size a \<open>sensorData\<close> event appends its reading to the
  queue.\<close>

lemma emit_sensorData_enqueues:
  assumes "\<not> isProcessing (dataProcessor ms)"
    and "length (processingQueue (dataProcessor ms)) + 1 < batchSize (dataProcessor ms)"
  shows "processingQueue (dataProcessor (fst (emit_sensorData P now ms reading)))
           = processingQueue (dataProcessor ms) @ [reading]"
  using assms by (simp add: emit_sensorData_def addToQueue_def Let_def split: prod.splits)

section \<open>The timestamp window\<close>







lemma validateTimestamp_past_example:
  "validateTimestamp sample_platform sample_now ''2023-11-01T00:00:00.000Z'' =
     Inl (ValidationError ''Timestamp cannot be more than 30 days in the past'')"
  by (simp add: validateTimestamp_def sample_defs)


section \<open>The instant of processing\<close>





section \<open>Threshold alerts of the collector\<close>

lemma threshold_for_Some_type:
  "threshold_for ths ty = Some th \<Longrightarrow>
     ty = ''temperature'' \<or> ty = ''humidity'' \<or> ty = ''pressure'' \<or> ty = ''light''
     \<or> ty = ''vibration''"
  by (simp add: threshold_for_def split: if_splits)

lemma typeof_number: "typeof v = ''number'' \<Longrightarrow> truthy v \<Longrightarrow> \<exists>x. v = JNum x \<and> x \<noteq> 0"
  by (cases v) simp_all

lemma validated_threshold_value_numeric:
  assumes "SensorDataCollector_validateSensorReading P reading"
    and "threshold_for ths (sensorType reading) = Some th"
  shows "\<exists>x. reading_value reading = JNum x \<and> x \<noteq> 0"
proof -
  from assms(1) have t: "truthy (reading_value reading)"
    by (simp add: SensorDataCollector_validateSensorReading_def split: if_splits)
  from threshold_for_Some_type [OF assms(2)] assms(1)
  have "typeof (reading_value reading) = ''number''"
    by (auto simp: SensorDataCollector_validateSensorReading_def split: if_splits)
  then show ?thesis using t by (rule typeof_number)
qed

lemma checkForAlerts_numeric:
  assumes "sensors (sensorId reading) = Some cfg" and "config_thresholds cfg = Some ths"
    and "threshold_for ths (sensorType reading) = Some th"
    and "reading_value reading = JNum x"
  shows "SensorDataCollector_checkForAlerts P sensors reading =
           (if x > threshold_max th then
              Some (sensor_alert reading th
                (sensorType reading @ '' exceeded maximum threshold: ''
                  @ ToString P (JNum x) @ '' > '' @ ToString P (JNum (threshold_max th))))
            else if x < threshold_min th then
              Some (sensor_alert reading th
                (sensorType reading @ '' below minimum threshold: ''
                  @ ToString P (JNum x) @ '' < '' @ ToString P (JNum (threshold_min th))))
            else None)"
  using assms by (simp add: SensorDataCollector_checkForAlerts_def js_gt_def js_lt_def)

lemma checkForAlerts_unregistered:
  "sensors (sensorId reading) = None \<Longrightarrow>
     SensorDataCollector_checkForAlerts P sensors reading = None"
  by (simp add: SensorDataCollector_checkForAlerts_def)

lemma sensor_alert_fields:
  "obj_field (sensor_alert reading th msg) ''severity'' = JStr ''high''
   \<and> obj_field (sensor_alert reading th msg) ''type'' = JUndefined
   \<and> obj_field (sensor_alert reading th msg) ''value'' = reading_value reading
   \<and> obj_field (sensor_alert reading th msg) ''message'' = JStr msg
   \<and> obj_field (sensor_alert reading th msg) ''sensorId'' = JStr (sensorId reading)"
  by (simp add: sensor_alert_def)

lemma processSensorData_alert_events:
  "Emit_sensorAlert a \<in> set (processSensorData P sensors reading) \<longleftrightarrow>
     SensorDataCollector_validateSensorReading P reading
     \<and> SensorDataCollector_checkForAlerts P sensors reading = Some a"
  by (auto simp: processSensorData_def handleSensorAlert_def split: option.splits)

text \<open>
  Claim C3, as amended. For every reading that passes the collector's
  \<open>validateSensorReading\<close> and comes from a sensor registered with thresholds for the
  reading's type, the value is a number and a \<open>sensorAlert\<close> is emitted exactly when
  the value is above the maximum or below the minimum; the alert has severity high, no
  \<open>type\<close> property, and a message that names the sensor type, the violated bound, the
  value and the threshold. A reading from a sensor that is not registered never triggers
  the alert.
\<close>

theorem threshold_alert_iff:
  "(SensorDataCollector_validateSensorReading P reading
      \<and> sensors (sensorId reading) = Some cfg \<and> config_thresholds cfg = Some ths
      \<and> threshold_for ths (sensorType reading) = Some th
    \<longrightarrow> (\<exists>x. reading_value reading = JNum x
          \<and> ((\<exists>a. Emit_sensorAlert a \<in> set (processSensorData P sensors reading))
               = (x > threshold_max th \<or> x < threshold_min th))
          \<and> (\<forall>a. Emit_sensorAlert a \<in> set (processSensorData P sensors reading) \<longrightarrow>
                obj_field a ''severity'' = JStr ''high''
                \<and> obj_field a ''type'' = JUndefined
                \<and> obj_field a ''value'' = JNum x
                \<and> obj_field a ''message'' =
                    JStr (if x > threshold_max th
                          then sensorType reading @ '' exceeded maximum threshold: ''
                                 @ ToString P (JNum x) @ '' > ''
                                 @ ToString P (JNum (threshold_max th))
                          else sensorType reading @ '' below minimum threshold: ''
                                 @ ToString P (JNum x) @ '' < ''
                                 @ ToString P (JNum (threshold_min th))))))
   \<and> (sensors (sensorId reading) = None
        \<longrightarrow> SensorDataCollector_checkForAlerts P sensors reading = None
          \<and> (\<forall>a. Emit_sensorAlert a \<notin> set (processSensorData P sensors reading)))"
proof -
  have registered: "\<exists>x. reading_value reading = JNum x
          \<and> ((\<exists>a. Emit_sensorAlert a \<in> set (processSensorData P sensors reading))
               = (x > threshold_max th \<or> x < threshold_min th))
          \<and> (\<forall>a. Emit_sensorAlert a \<in> set (processSensorData P sensors reading) \<longrightarrow>
                obj_field a ''severity'' = JStr ''high''
                \<and> obj_field a ''type'' = JUndefined
                \<and> obj_field a ''value'' = JNum x
                \<and> obj_field a ''message'' =
                    JStr (if x > threshold_max th
                          then sensorType reading @ '' exceeded maximum threshold: ''
                                 @ ToString P (JNum x) @ '' > ''
                                 @ ToString P (JNum (threshold_max th))
                          else sensorType reading @ '' below minimum threshold: ''
                                 @ ToString P (JNum x) @ '' < ''
                                 @ ToString P (JNum (threshold_min th))))"
    if valid: "SensorDataCollector_validateSensorReading P reading"
      and reg: "sensors (sensorId reading) = Some cfg"
      and ths: "config_thresholds cfg = Some ths"
      and th: "threshold_for ths (sensorType reading) = Some th"
  proof -
    from validated_threshold_value_numeric [OF valid th]
    obtain x where x: "reading_value reading = JNum x" by blast
    note alerts = checkForAlerts_numeric [where sensors = sensors and reading = reading and P = P, OF reg ths th x]
    have iff: "(\<exists>a. Emit_sensorAlert a \<in> set (processSensorData P sensors reading))
               = (x > threshold_max th \<or> x < threshold_min th)"
      by (simp add: processSensorData_alert_events valid alerts)
    have fields: "obj_field a ''severity'' = JStr ''high''
                \<and> obj_field a ''type'' = JUndefined
                \<and> obj_field a ''value'' = JNum x
                \<and> obj_field a ''message'' =
                    JStr (if x > threshold_max th
                          then sensorType reading @ '' exceeded maximum threshold: ''
                                 @ ToString P (JNum x) @ '' > ''
                                 @ ToString P (JNum (threshold_max th))
                          else sensorType reading @ '' below minimum threshold: ''
                                 @ ToString P (JNum x) @ '' < ''
                                 @ ToString P (JNum (threshold_min th)))"
      if "Emit_sensorAlert a \<in> set (processSensorData P sensors reading)" for a
    proof -
      from that have "SensorDataCollector_checkForAlerts P sensors reading = Some a"
        by (simp add: processSensorData_alert_events)
      then show ?thesis
        by (auto simp: alerts sensor_alert_fields x split: if_splits)
    qed
    from x iff fields show ?thesis by blast
  qed
  have unregistered: "SensorDataCollector_checkForAlerts P sensors reading = None
          \<and> (\<forall>a. Emit_sensorAlert a \<notin> set (processSensorData P sensors reading))"
    if "sensors (sensorId reading) = None"
    using that by (simp add: processSensorData_alert_events checkForAlerts_unregistered)
  from registered unregistered show ?thesis by blast
qed

text \<open>Scenario 3: the reading 1100 of PRESSURE1, registered with 950 and 1050.\<close>

lemma sample_alert_1100:
  "SensorDataCollector_checkForAlerts sample_platform sample_sensors reading_pressure_1100 =
     Some (JObj [(''sensorId'', JStr ''PRESSURE1''), (''sensorType'', JStr ''pressure''),
                 (''value'', JNum 1100),
                 (''threshold'', JObj [(''min'', JNum 950), (''max'', JNum 1050)]),
                 (''message'', JStr ''pressure exceeded maximum threshold: 1100 > 1050''),
                 (''timestamp'', JStr ''2024-01-01T12:00:00.000Z''),
                 (''severity'', JStr ''high'')])"
  by (simp add: SensorDataCollector_checkForAlerts_def registerSensor_def threshold_for_def
        sensor_alert_def js_gt_def js_lt_def sample_defs)

lemma sample_valid_1100:
  "SensorDataCollector_validateSensorReading sample_platform reading_pressure_1100"
  by (simp add: SensorDataCollector_validateSensorReading_def js_ge_def js_le_def sample_defs)

theorem threshold_alert_iff_witness:
  "SensorDataCollector_validateSensorReading sample_platform reading_pressure_1100
   \<and> sample_sensors (sensorId reading_pressure_1100) = Some config_pressure1
   \<and> threshold_for (the (config_thresholds config_pressure1)) (sensorType reading_pressure_1100)
        = Some \<lparr> threshold_min = 950, threshold_max = 1050 \<rparr>
   \<and> reading_value reading_pressure_1100 = JNum 1100
   \<and> Emit_sensorAlert
        (the (SensorDataCollector_checkForAlerts sample_platform sample_sensors
                reading_pressure_1100))
        \<in> set (processSensorData sample_platform sample_sensors reading_pressure_1100)
   \<and> obj_field
        (the (SensorDataCollector_checkForAlerts sample_platform sample_sensors
                reading_pressure_1100)) ''message''
        = JStr ''pressure exceeded maximum threshold: 1100 > 1050''
   \<and> sample_sensors (sensorId reading_fresh) = None
   \<and> SensorDataCollector_checkForAlerts sample_platform sample_sensors reading_fresh = None"
proof -
  have reg: "sample_sensors (sensorId reading_pressure_1100) = Some config_pressure1"
    by (simp add: registerSensor_def sample_defs)
  have ths: "config_thresholds config_pressure1 =
               Some \<lparr> th_temperature = None, th_humidity = None,
                      th_pressure = Some \<lparr> threshold_min = 950, threshold_max = 1050 \<rparr>,
                      th_light = None, th_vibration = None \<rparr>"
    by (simp add: config_pressure1_def)
  have th: "threshold_for (the (config_thresholds config_pressure1))
              (sensorType reading_pressure_1100)
              = Some \<lparr> threshold_min = 950, threshold_max = 1050 \<rparr>"
    by (simp add: threshold_for_def sample_defs)
  have v: "reading_value reading_pressure_1100 = JNum 1100"
    by (simp add: sample_defs)
  have ev: "Emit_sensorAlert
        (the (SensorDataCollector_checkForAlerts sample_platform sample_sensors
                reading_pressure_1100))
        \<in> set (processSensorData sample_platform sample_sensors reading_pressure_1100)"
    by (simp add: processSensorData_alert_events sample_valid_1100 sample_alert_1100)
  have unreg: "sample_sensors (sensorId reading_fresh) = None"
    by (simp add: registerSensor_def sample_defs)
  from threshold_alert_iff
         [of sample_platform reading_pressure_1100 sample_sensors config_pressure1
             "the (config_thresholds config_pressure1)"
             "\<lparr> threshold_min = 950, threshold_max = 1050 \<rparr>"]
       sample_valid_1100 reg ths th v ev
  have msg: "obj_field
        (the (SensorDataCollector_checkForAlerts sample_platform sample_sensors
                reading_pressure_1100)) ''message''
        = JStr ''pressure exceeded maximum threshold: 1100 > 1050''"
    by (simp add: sample_alert_1100)
  from threshold_alert_iff [of sample_platform reading_fresh sample_sensors] unreg
  have none: "SensorDataCollector_checkForAlerts sample_platform sample_sensors reading_fresh
                = None"
    by blast
  from sample_valid_1100 reg th v ev msg unreg none show ?thesis by blast
qed

text \<open>
  Claim C3 as stated fails twice. The reading 2500 of PRESSURE1 is above the registered
  maximum 1050, but \<open>validateSensorReading\<close> rejects it (a pressure above 2000) and
  \<open>processSensorData\<close> returns before \<open>checkForAlerts\<close>: no alert. And the alert
  emitted for the reading 1100 has no \<open>type\<close> property, so its type is not
  THRESHOLD_EXCEEDED.
\<close>

theorem threshold_alert_gated_and_untyped:
  "sample_sensors (sensorId reading_pressure_2500) = Some config_pressure1
   \<and> threshold_for (the (config_thresholds config_pressure1)) (sensorType reading_pressure_2500)
        = Some \<lparr> threshold_min = 950, threshold_max = 1050 \<rparr>
   \<and> reading_value reading_pressure_2500 = JNum 2500
   \<and> (2500::real) > 1050
   \<and> processSensorData sample_platform sample_sensors reading_pressure_2500
        = [Log_warn_invalid_reading ''PRESSURE1'']
   \<and> obj_field
        (the (SensorDataCollector_checkForAlerts sample_platform sample_sensors
                reading_pressure_1100)) ''type''
        = JUndefined"
  by (simp add: sample_alert_1100)
     (simp add: processSensorData_def SensorDataCollector_validateSensorReading_def
        registerSensor_def threshold_for_def js_ge_def js_le_def sample_defs)

section \<open>A flush of the queue\<close>

lemma promise_all_map_Inr: "promise_all (map Inr xs) = Inr xs"
  by (induction xs) simp_all

lemma promise_all_Inr_D: "promise_all rs = Inr xs \<Longrightarrow> rs = map Inr xs"
proof (induction rs arbitrary: xs)
  case Nil
  then show ?case by simp
next
  case (Cons r rs)
  show ?case
  proof (cases r)
    case (Inl e)
    with Cons.prems show ?thesis by simp
  next
    case (Inr x)
    with Cons.prems obtain ys where ys: "promise_all rs = Inr ys" and xs: "xs = x # ys"
      by (auto split: sum.splits)
    from Cons.IH [OF ys] Inr xs show ?thesis by simp
  qed
qed

lemma promise_all_Inr_iff: "promise_all rs = Inr xs \<longleftrightarrow> rs = map Inr xs"
  using promise_all_Inr_D promise_all_map_Inr by blast

lemma promise_all_Inl_iff: "(\<exists>e. promise_all rs = Inl e) \<longleftrightarrow> (\<exists>r \<in> set rs. isl r)"
proof (induction rs)
  case Nil
  then show ?case by simp
next
  case (Cons r rs)
  then show ?case by (cases r) (auto split: sum.splits)
qed

lemma promise_all_all_Inr:
  assumes "\<forall>r \<in> set rs. \<not> isl r"
  shows "promise_all rs = Inr (map projr rs)"
proof -
  have "rs = map Inr (map projr rs)"
    using assms by (induction rs) (auto simp: isl_def)
  then show ?thesis by (simp only: promise_all_Inr_iff)
qed

lemma reading_error_logs_set:
  "ev \<in> set (reading_error_logs rs) \<longleftrightarrow> (\<exists>e. ev = Log_error_reading e \<and> Inl e \<in> set rs)"
proof (induction rs)
  case Nil
  then show ?case by simp
next
  case (Cons r rs)
  then show ?case by (cases r) auto
qed

lemma flush_count_reading_error_logs: "filter is_flush_start (reading_error_logs rs) = []"
proof (induction rs)
  case Nil
  then show ?case by simp
next
  case (Cons r rs)
  then show ?case by (cases r) auto
qed

text \<open>The call and the continuation, when they run and when they do not.\<close>

lemma processQueue_call_runs:
  assumes "\<not> isProcessing st" and "processingQueue st \<noteq> []"
  shows "processQueue_call P now st =
           (st \<lparr> processingQueue := drop (batchSize st) (processingQueue st),
                  isProcessing := True,
                  awaited := Some (map (processSensorReading P now)
                                     (take (batchSize st) (processingQueue st))) \<rparr>,
            Log_info_processing_batch (length (take (batchSize st) (processingQueue st)))
            # reading_error_logs
                (map (processSensorReading P now) (take (batchSize st) (processingQueue st))))"
  using assms by (simp add: processQueue_call_def splice0_def Let_def)

lemma processQueue_call_idle:
  "isProcessing st \<or> processingQueue st = [] \<Longrightarrow> processQueue_call P now st = (st, [])"
  by (auto simp: processQueue_call_def)

lemma processQueue_resume_awaited:
  "awaited st = Some results \<Longrightarrow>
     processQueue_resume P st
       = (st \<lparr> isProcessing := False, awaited := None \<rparr>, resume_events P results)"
  by (simp add: processQueue_resume_def resume_events_def Let_def split: sum.split)

lemma processQueue_resume_nothing:
  "awaited st = None \<Longrightarrow> processQueue_resume P st = (st, [])"
  by (simp add: processQueue_resume_def)

lemma flush_events_split:
  "flush_events P results =
     Log_info_processing_batch (length results) # reading_error_logs results
     @ resume_events P results"
  by (simp add: flush_events_def resume_events_def)

text \<open>A whole flush that runs: the state it leaves and its events.\<close>

lemma processQueue_runs:
  assumes "\<not> isProcessing st" and "processingQueue st \<noteq> []"
  shows "processQueue P now st =
           (st \<lparr> processingQueue := drop (batchSize st) (processingQueue st),
                  isProcessing := False, awaited := None \<rparr>,
            flush_events P
              (map (processSensorReading P now) (take (batchSize st) (processingQueue st))))"
  using assms
  by (simp add: processQueue_def processQueue_call_runs processQueue_resume_awaited
        flush_events_split)

lemma processQueue_idle:
  "isProcessing st \<or> processingQueue st = [] \<Longrightarrow> processQueue P now st = (st, [])"
  by (auto simp: processQueue_def)

lemma flush_events_failure:
  assumes "\<exists>r \<in> set results. isl r"
  shows "(\<forall>pds. Emit_dataProcessed pds \<notin> set (flush_events P results))
         \<and> (\<forall>alerts. Emit_alertGenerated alerts \<notin> set (flush_events P results))
         \<and> (\<exists>e. Log_error_batch e \<in> set (flush_events P results))"
proof -
  from assms obtain e where e: "promise_all results = Inl e"
    using promise_all_Inl_iff [of results] by blast
  show ?thesis
    by (auto simp: flush_events_def e reading_error_logs_set)
qed

lemma flush_events_success:
  assumes "\<forall>r \<in> set results. \<not> isl r"
  shows "Emit_dataProcessed (map projr results) \<in> set (flush_events P results)
         \<and> (\<forall>e. Log_error_batch e \<notin> set (flush_events P results))"
proof -
  note ok = promise_all_all_Inr [OF assms]
  show ?thesis
    by (auto simp: flush_events_def ok reading_error_logs_set)
qed

lemma flush_events_logs_failures:
  "Inl e \<in> set results \<Longrightarrow> Log_error_reading e \<in> set (flush_events P results)"
  by (simp add: flush_events_def reading_error_logs_set)

text \<open>
  Claim C4, as amended. For every batch flushed by the processor, the flush removes the
  batch from the queue and ends with the processing flag reset, and the exception of
  every failing reading is logged. When some reading of the batch raises an exception,
  the batch-level handler logs it and nothing is emitted for the batch, neither
  \<open>dataProcessed\<close> nor \<open>alertGenerated\<close>; the batch is emitted, whole and in order,
  exactly when every reading of it is processed without exception.
\<close>

theorem flush_is_all_or_nothing:
  assumes "\<not> isProcessing st" and "processingQueue st \<noteq> []"
  shows "processingQueue (fst (processQueue P now st))
           = drop (batchSize st) (processingQueue st)
         \<and> \<not> isProcessing (fst (processQueue P now st))
         \<and> (\<forall>r \<in> set (take (batchSize st) (processingQueue st)).
              \<forall>e. processSensorReading P now r = Inl e \<longrightarrow>
                Log_error_reading e \<in> set (snd (processQueue P now st)))
         \<and> ((\<exists>r \<in> set (take (batchSize st) (processingQueue st)).
                isl (processSensorReading P now r)) \<longrightarrow>
              (\<forall>pds. Emit_dataProcessed pds \<notin> set (snd (processQueue P now st)))
              \<and> (\<forall>alerts. Emit_alertGenerated alerts \<notin> set (snd (processQueue P now st)))
              \<and> (\<exists>e. Log_error_batch e \<in> set (snd (processQueue P now st))))
         \<and> ((\<forall>r \<in> set (take (batchSize st) (processingQueue st)).
                \<not> isl (processSensorReading P now r)) \<longrightarrow>
              Emit_dataProcessed
                (map (\<lambda>r. projr (processSensorReading P now r))
                   (take (batchSize st) (processingQueue st)))
                \<in> set (snd (processQueue P now st))
              \<and> (\<forall>e. Log_error_batch e \<notin> set (snd (processQueue P now st))))"
proof -
  define batch where "batch = take (batchSize st) (processingQueue st)"
  define results where "results = map (processSensorReading P now) batch"
  have run: "processQueue P now st =
           (st \<lparr> processingQueue := drop (batchSize st) (processingQueue st),
                  isProcessing := False, awaited := None \<rparr>,
            flush_events P results)"
    unfolding results_def batch_def by (rule processQueue_runs [OF assms])
  have a: "processingQueue (fst (processQueue P now st))
           = drop (batchSize st) (processingQueue st)"
    by (simp add: run)
  have b: "\<not> isProcessing (fst (processQueue P now st))"
    using assms(1) by (simp add: run)
  have c: "\<forall>r \<in> set batch. \<forall>e. processSensorReading P now r = Inl e \<longrightarrow>
                Log_error_reading e \<in> set (snd (processQueue P now st))"
  proof (intro ballI allI impI)
    fix r e assume "r \<in> set batch" and "processSensorReading P now r = Inl e"
    then have "Inl e \<in> set results" unfolding results_def by force
    then show "Log_error_reading e \<in> set (snd (processQueue P now st))"
      by (simp add: run flush_events_logs_failures)
  qed
  have d: "(\<forall>pds. Emit_dataProcessed pds \<notin> set (snd (processQueue P now st)))
              \<and> (\<forall>alerts. Emit_alertGenerated alerts \<notin> set (snd (processQueue P now st)))
              \<and> (\<exists>e. Log_error_batch e \<in> set (snd (processQueue P now st)))"
    if "\<exists>r \<in> set batch. isl (processSensorReading P now r)"
  proof -
    from that have "\<exists>r \<in> set results. isl r" unfolding results_def by simp
    from flush_events_failure [OF this, of P] show ?thesis by (simp add: run)
  qed
  have e: "Emit_dataProcessed (map (\<lambda>r. projr (processSensorReading P now r)) batch)
                \<in> set (snd (processQueue P now st))
              \<and> (\<forall>e. Log_error_batch e \<notin> set (snd (processQueue P now st)))"
    if "\<forall>r \<in> set batch. \<not> isl (processSensorReading P now r)"
  proof -
    from that have ok: "\<forall>r \<in> set results. \<not> isl r" unfolding results_def by simp
    have "map projr results = map (\<lambda>r. projr (processSensorReading P now r)) batch"
      unfolding results_def by simp
    with flush_events_success [OF ok, of P] show ?thesis by (simp add: run)
  qed
  from a b c d e show ?thesis unfolding batch_def by blast
qed

text \<open>A batch of scenario 1 (valid) and scenario 2 (a humidity of 200).\<close>

lemma sample_flush_good_bad:
  "processQueue sample_platform sample_now queue_good_bad =
     (new_DataProcessor,
      [Log_info_processing_batch 2,
       Log_error_reading (Error ''Invalid humidity value''),
       Log_error_batch (Error ''Invalid humidity value'')])"
  by (simp add: queue_good_bad_def processQueue_def processQueue_call_def
        processQueue_resume_def splice0_def processing_defs sample_defs)

lemma sample_fresh_ok:
  "\<not> isl (processSensorReading sample_platform sample_now reading_fresh)"
  by (simp add: processing_defs sample_defs)

lemma sample_humidity_200_fails:
  "processSensorReading sample_platform sample_now reading_humidity_200
     = Inl (Error ''Invalid humidity value'')"
  by (simp add: processing_defs sample_defs)

theorem flush_is_all_or_nothing_witness:
  "\<not> isProcessing queue_good_bad
   \<and> processingQueue queue_good_bad = [reading_fresh, reading_humidity_200]
   \<and> isl (processSensorReading sample_platform sample_now reading_humidity_200)
   \<and> processingQueue (fst (processQueue sample_platform sample_now queue_good_bad)) = []
   \<and> Log_error_reading (Error ''Invalid humidity value'')
        \<in> set (snd (processQueue sample_platform sample_now queue_good_bad))
   \<and> Emit_dataProcessed [projr (processSensorReading sample_platform sample_now reading_fresh)]
        \<notin> set (snd (processQueue sample_platform sample_now queue_good_bad))"
proof -
  have idle: "\<not> isProcessing queue_good_bad"
    by (simp add: queue_good_bad_def new_DataProcessor_def)
  have q: "processingQueue queue_good_bad = [reading_fresh, reading_humidity_200]"
    by (simp add: queue_good_bad_def)
  have ne: "processingQueue queue_good_bad \<noteq> []"
    by (simp add: q)
  have b: "batchSize queue_good_bad = 100"
    by (simp add: queue_good_bad_def new_DataProcessor_def)
  have bad: "isl (processSensorReading sample_platform sample_now reading_humidity_200)"
    by (simp add: sample_humidity_200_fails)
  note inst = flush_is_all_or_nothing [OF idle ne, of sample_platform sample_now]
  from inst have empty:
    "processingQueue (fst (processQueue sample_platform sample_now queue_good_bad)) = []"
    by (simp add: q b)
  from inst sample_humidity_200_fails
  have logged: "Log_error_reading (Error ''Invalid humidity value'')
        \<in> set (snd (processQueue sample_platform sample_now queue_good_bad))"
    by (simp add: q b)
  from inst bad
  have "\<forall>pds. Emit_dataProcessed pds
          \<notin> set (snd (processQueue sample_platform sample_now queue_good_bad))"
    by (simp add: q b)
  then have none: "Emit_dataProcessed
           [projr (processSensorReading sample_platform sample_now reading_fresh)]
        \<notin> set (snd (processQueue sample_platform sample_now queue_good_bad))"
    by blast
  from idle q bad empty logged none show ?thesis by blast
qed

text \<open>
  Claim C4 as stated says that the other readings of the batch are still processed and
  emitted. In the batch of scenario 1 and scenario 2 the first reading is processed
  without exception and the second throws; the flush logs the two errors and emits
  nothing.
\<close>

theorem failing_reading_voids_the_batch:
  "\<not> isl (processSensorReading sample_platform sample_now reading_fresh)
   \<and> processSensorReading sample_platform sample_now reading_humidity_200
       = Inl (Error ''Invalid humidity value'')
   \<and> processingQueue queue_good_bad = [reading_fresh, reading_humidity_200]
   \<and> processQueue sample_platform sample_now queue_good_bad =
       (new_DataProcessor,
        [Log_info_processing_batch 2,
         Log_error_reading (Error ''Invalid humidity value''),
         Log_error_batch (Error ''Invalid humidity value'')])"
  by (simp add: sample_flush_good_bad sample_fresh_ok sample_humidity_200_fails)
     (simp add: queue_good_bad_def)

text \<open>The alerts a successful flush emits are those of \<open>checkForAlerts\<close> on the
  processed batch, when there are any.\<close>

lemma flush_emits_alerts:
  assumes "\<forall>r \<in> set results. \<not> isl r"
  shows "Emit_alertGenerated alerts \<in> set (flush_events P results) \<longleftrightarrow>
           alerts = DataProcessor_checkForAlerts P (map projr results) \<and> alerts \<noteq> []"
  by (auto simp: flush_events_def promise_all_all_Inr [OF assms] reading_error_logs_set)

section \<open>Alerts of a processed batch\<close>

text \<open>\<open>isAnomaly\<close> is constantly false, so the alerts are the QUALITY_LOW alerts of
  the readings with a score below 70, in the order of the batch.\<close>

lemma checkForAlerts_filter:
  "DataProcessor_checkForAlerts P pds =
     map (quality_alert P) (filter (\<lambda>pd. qualityScore pd < 70) pds)"
  by (induction pds) (simp_all add: isAnomaly_def)

lemma quality_alert_data: "alert_data (quality_alert P pd) = Some pd"
  by (simp add: quality_alert_def)

lemma inj_quality_alert: "inj (quality_alert P)"
proof (rule injI)
  fix x y assume "quality_alert P x = quality_alert P y"
  then have "alert_data (quality_alert P x) = alert_data (quality_alert P y)" by simp
  then show "x = y" by (simp only: quality_alert_data option.inject)
qed

text \<open>The list that \<open>checkForAlerts\<close> returns.\<close>

lemma checkForAlerts_quality_low:
  "(\<forall>pd \<in> set pds.
      (quality_alert P pd \<in> set (DataProcessor_checkForAlerts P pds)) = (qualityScore pd < 70))
   \<and> (\<forall>a \<in> set (DataProcessor_checkForAlerts P pds).
        alert_type a = QUALITY_LOW \<and> alert_severity a = medium
        \<and> (\<exists>pd \<in> set pds. a = quality_alert P pd \<and> qualityScore pd < 70))
   \<and> (qualityScore pd70 = 70 \<longrightarrow> DataProcessor_checkForAlerts P [pd70] = [])
   \<and> (qualityScore pd69 = 69 \<longrightarrow> DataProcessor_checkForAlerts P [pd69] = [quality_alert P pd69])"
proof -
  have set_eq: "set (DataProcessor_checkForAlerts P pds)
                  = quality_alert P ` {pd \<in> set pds. qualityScore pd < 70}"
    by (simp add: checkForAlerts_filter)
  have a: "\<forall>pd \<in> set pds.
      (quality_alert P pd \<in> set (DataProcessor_checkForAlerts P pds)) = (qualityScore pd < 70)"
    by (simp add: set_eq inj_image_mem_iff [OF inj_quality_alert])
  have ty: "alert_type (quality_alert P pd) = QUALITY_LOW
            \<and> alert_severity (quality_alert P pd) = medium" for pd
    by (simp add: quality_alert_def)
  have b: "\<forall>a \<in> set (DataProcessor_checkForAlerts P pds).
        alert_type a = QUALITY_LOW \<and> alert_severity a = medium
        \<and> (\<exists>pd \<in> set pds. a = quality_alert P pd \<and> qualityScore pd < 70)"
    unfolding set_eq using ty by blast
  have c: "qualityScore pd70 = 70 \<longrightarrow> DataProcessor_checkForAlerts P [pd70] = []"
    by (simp add: isAnomaly_def)
  have d: "qualityScore pd69 = 69 \<longrightarrow>
             DataProcessor_checkForAlerts P [pd69] = [quality_alert P pd69]"
    by (simp add: isAnomaly_def)
  from a b c d show ?thesis by blast
qed

text \<open>The \<open>alertGenerated\<close> event of a continuation: emitted exactly when every promise
  of the batch is fulfilled and \<open>checkForAlerts\<close> returns alerts, and it carries them.\<close>

lemma resume_alert_events:
  assumes "awaited st = Some results"
  shows "(Emit_alertGenerated alerts \<in> set (snd (processQueue_resume P st))) =
           (\<exists>pds. promise_all results = Inr pds
                 \<and> alerts = DataProcessor_checkForAlerts P pds \<and> alerts \<noteq> [])"
  by (auto simp: processQueue_resume_awaited [OF assms] resume_events_def split: sum.splits)

lemma flush_alert_events:
  assumes "\<not> isProcessing st" and "processingQueue st \<noteq> []"
  shows "(Emit_alertGenerated alerts \<in> set (snd (processQueue P now st))) =
           (\<exists>pds. promise_all (map (processSensorReading P now)
                                (take (batchSize st) (processingQueue st))) = Inr pds
                 \<and> alerts = DataProcessor_checkForAlerts P pds \<and> alerts \<noteq> [])"
  by (auto simp: processQueue_runs [OF assms] flush_events_def reading_error_logs_set
           split: sum.splits)

text \<open>
  Claim C7, as amended. In a batch all of whose readings are processed without exception,
  a QUALITY_LOW alert of severity medium is emitted for a processed reading, in the
  \<open>alertGenerated\<close> event of the batch, exactly when its quality score is strictly
  below 70, and nothing else is emitted as an alert; a score of exactly 70 gives no alert
  and a score of 69 gives one. When a reading of the batch throws, no alert is emitted
  for the batch. This holds of the continuation for any awaited batch, and of a whole
  flush of the queue.
\<close>

theorem quality_low_iff_score_below_70:
  "(awaited st = Some (map Inr pds) \<longrightarrow>
      (\<forall>pd \<in> set pds.
         (\<exists>alerts. Emit_alertGenerated alerts \<in> set (snd (processQueue_resume P st))
                  \<and> quality_alert P pd \<in> set alerts) = (qualityScore pd < 70))
      \<and> (\<forall>alerts a. Emit_alertGenerated alerts \<in> set (snd (processQueue_resume P st))
                     \<and> a \<in> set alerts \<longrightarrow>
            alert_type a = QUALITY_LOW \<and> alert_severity a = medium
            \<and> (\<exists>pd \<in> set pds. a = quality_alert P pd \<and> qualityScore pd < 70)))
   \<and> (awaited st = Some results \<and> (\<exists>r \<in> set results. isl r) \<longrightarrow>
        (\<forall>alerts. Emit_alertGenerated alerts \<notin> set (snd (processQueue_resume P st))))
   \<and> (\<not> isProcessing st' \<and> processingQueue st' \<noteq> [] \<longrightarrow>
        ((\<forall>r \<in> set (take (batchSize st') (processingQueue st')).
             \<not> isl (processSensorReading P now r)) \<longrightarrow>
           (\<forall>r \<in> set (take (batchSize st') (processingQueue st')).
              (\<exists>alerts. Emit_alertGenerated alerts \<in> set (snd (processQueue P now st'))
                       \<and> quality_alert P (projr (processSensorReading P now r)) \<in> set alerts)
              = (qualityScore (projr (processSensorReading P now r)) < 70)))
        \<and> ((\<exists>r \<in> set (take (batchSize st') (processingQueue st')).
               isl (processSensorReading P now r)) \<longrightarrow>
             (\<forall>alerts. Emit_alertGenerated alerts \<notin> set (snd (processQueue P now st')))))
   \<and> (\<forall>pd \<in> set pds.
        (quality_alert P pd \<in> set (DataProcessor_checkForAlerts P pds)) = (qualityScore pd < 70))
   \<and> (\<forall>a \<in> set (DataProcessor_checkForAlerts P pds).
        alert_type a = QUALITY_LOW \<and> alert_severity a = medium
        \<and> (\<exists>pd \<in> set pds. a = quality_alert P pd \<and> qualityScore pd < 70))
   \<and> (qualityScore pd70 = 70 \<longrightarrow> DataProcessor_checkForAlerts P [pd70] = [])
   \<and> (qualityScore pd69 = 69 \<longrightarrow> DataProcessor_checkForAlerts P [pd69] = [quality_alert P pd69])"
proof -
  note lists = checkForAlerts_quality_low [of pds P pd70 pd69]
  have mem: "\<forall>pd \<in> set xs.
      (quality_alert P pd \<in> set (DataProcessor_checkForAlerts P xs)) = (qualityScore pd < 70)"
    for xs using checkForAlerts_quality_low [of xs P pd70 pd69] by blast
  have only: "\<forall>a \<in> set (DataProcessor_checkForAlerts P xs).
        alert_type a = QUALITY_LOW \<and> alert_severity a = medium
        \<and> (\<exists>pd \<in> set xs. a = quality_alert P pd \<and> qualityScore pd < 70)"
    for xs using checkForAlerts_quality_low [of xs P pd70 pd69] by blast
  have resumed: "(\<forall>pd \<in> set pds.
         (\<exists>alerts. Emit_alertGenerated alerts \<in> set (snd (processQueue_resume P st))
                  \<and> quality_alert P pd \<in> set alerts) = (qualityScore pd < 70))
      \<and> (\<forall>alerts a. Emit_alertGenerated alerts \<in> set (snd (processQueue_resume P st))
                     \<and> a \<in> set alerts \<longrightarrow>
            alert_type a = QUALITY_LOW \<and> alert_severity a = medium
            \<and> (\<exists>pd \<in> set pds. a = quality_alert P pd \<and> qualityScore pd < 70))"
    if aw: "awaited st = Some (map Inr pds)"
  proof -
    have ev: "(Emit_alertGenerated alerts \<in> set (snd (processQueue_resume P st))) =
                (alerts = DataProcessor_checkForAlerts P pds \<and> alerts \<noteq> [])" for alerts
      by (auto simp: resume_alert_events [OF aw] promise_all_Inr_iff)
    have one: "(\<exists>alerts. Emit_alertGenerated alerts \<in> set (snd (processQueue_resume P st))
                  \<and> quality_alert P pd \<in> set alerts) = (qualityScore pd < 70)"
      if "pd \<in> set pds" for pd
      using mem [of pds] that by (auto simp: ev)
    have two: "alert_type a = QUALITY_LOW \<and> alert_severity a = medium
            \<and> (\<exists>pd \<in> set pds. a = quality_alert P pd \<and> qualityScore pd < 70)"
      if "Emit_alertGenerated alerts \<in> set (snd (processQueue_resume P st))"
        and "a \<in> set alerts" for alerts a
      using only [of pds] that by (simp add: ev)
    from one two show ?thesis by blast
  qed
  have rejected: "\<forall>alerts. Emit_alertGenerated alerts \<notin> set (snd (processQueue_resume P st))"
    if aw: "awaited st = Some results" and bad: "\<exists>r \<in> set results. isl r"
  proof -
    from bad obtain e where "promise_all results = Inl e"
      using promise_all_Inl_iff [of results] by blast
    then show ?thesis by (simp add: resume_alert_events [OF aw])
  qed
  have whole_ok: "\<forall>r \<in> set (take (batchSize st') (processingQueue st')).
              (\<exists>alerts. Emit_alertGenerated alerts \<in> set (snd (processQueue P now st'))
                       \<and> quality_alert P (projr (processSensorReading P now r)) \<in> set alerts)
              = (qualityScore (projr (processSensorReading P now r)) < 70)"
    if run: "\<not> isProcessing st'" "processingQueue st' \<noteq> []"
      and ok: "\<forall>r \<in> set (take (batchSize st') (processingQueue st')).
                 \<not> isl (processSensorReading P now r)"
  proof
    fix r assume r: "r \<in> set (take (batchSize st') (processingQueue st'))"
    let ?batch = "take (batchSize st') (processingQueue st')"
    let ?pds = "map (\<lambda>r. projr (processSensorReading P now r)) ?batch"
    have "\<forall>x \<in> set (map (processSensorReading P now) ?batch). \<not> isl x"
      using ok by simp
    from promise_all_all_Inr [OF this]
    have pa: "promise_all (map (processSensorReading P now) ?batch) = Inr ?pds"
      by (simp add: comp_def)
    have ev: "(Emit_alertGenerated alerts \<in> set (snd (processQueue P now st'))) =
                (alerts = DataProcessor_checkForAlerts P ?pds \<and> alerts \<noteq> [])" for alerts
      by (auto simp: flush_alert_events [OF run] pa)
    have "projr (processSensorReading P now r) \<in> set ?pds" using r by simp
    with mem [of ?pds]
    show "(\<exists>alerts. Emit_alertGenerated alerts \<in> set (snd (processQueue P now st'))
                       \<and> quality_alert P (projr (processSensorReading P now r)) \<in> set alerts)
              = (qualityScore (projr (processSensorReading P now r)) < 70)"
      by (auto simp: ev)
  qed
  have whole_bad: "\<forall>alerts. Emit_alertGenerated alerts \<notin> set (snd (processQueue P now st'))"
    if run: "\<not> isProcessing st'" "processingQueue st' \<noteq> []"
      and bad: "\<exists>r \<in> set (take (batchSize st') (processingQueue st')).
                  isl (processSensorReading P now r)"
  proof -
    from bad have "\<exists>x \<in> set (map (processSensorReading P now)
                               (take (batchSize st') (processingQueue st'))). isl x"
      by simp
    then obtain e where "promise_all (map (processSensorReading P now)
                               (take (batchSize st') (processingQueue st'))) = Inl e"
      using promise_all_Inl_iff by blast
    then show ?thesis by (simp add: flush_alert_events [OF run])
  qed
  from lists resumed rejected whole_ok whole_bad show ?thesis by blast
qed

text \<open>The reading one hour old is processed with a score of 65.\<close>

lemma sample_stale_score:
  "\<not> isl (processSensorReading sample_platform sample_now reading_stale)
   \<and> qualityScore (projr (processSensorReading sample_platform sample_now reading_stale)) = 65"
  by (simp add: processing_defs sample_defs)

text \<open>A continuation awaiting processed readings of scores 70 and 69: one alert, for the
  second.\<close>

theorem quality_low_iff_score_below_70_witness:
  "awaited awaiting_70_69 = Some (map Inr [pd_with_score 70, pd_with_score 69])
   \<and> snd (processQueue_resume sample_platform awaiting_70_69)
       = [Emit_dataProcessed [pd_with_score 70, pd_with_score 69], Log_info_processed 2,
          Emit_alertGenerated [quality_alert sample_platform (pd_with_score 69)],
          Log_warn_alerts 1]
   \<and> qualityScore (pd_with_score 69) < 70
   \<and> \<not> qualityScore (pd_with_score 70) < 70
   \<and> quality_alert sample_platform (pd_with_score 70)
       \<noteq> quality_alert sample_platform (pd_with_score 69)
   \<and> alert_type (quality_alert sample_platform (pd_with_score 69)) = QUALITY_LOW
   \<and> alert_severity (quality_alert sample_platform (pd_with_score 69)) = medium
   \<and> alert_message (quality_alert sample_platform (pd_with_score 69)) = ''Low quality score: 69''"
proof -
  have aw: "awaited awaiting_70_69 = Some (map Inr [pd_with_score 70, pd_with_score 69])"
    by (simp add: awaiting_70_69_def)
  have s69: "qualityScore (pd_with_score 69) < 70" and s70: "\<not> qualityScore (pd_with_score 70) < 70"
    by (simp_all add: pd_with_score_def)
  note inst = quality_low_iff_score_below_70
    [of awaiting_70_69 "[pd_with_score 70, pd_with_score 69]" sample_platform]
  from inst aw s69
  have "\<exists>alerts. Emit_alertGenerated alerts
                    \<in> set (snd (processQueue_resume sample_platform awaiting_70_69))
                \<and> quality_alert sample_platform (pd_with_score 69) \<in> set alerts"
    by simp
  moreover have ev: "snd (processQueue_resume sample_platform awaiting_70_69)
       = [Emit_dataProcessed [pd_with_score 70, pd_with_score 69], Log_info_processed 2,
          Emit_alertGenerated [quality_alert sample_platform (pd_with_score 69)],
          Log_warn_alerts 1]"
    by (simp add: processQueue_resume_def awaiting_70_69_def pd_with_score_def isAnomaly_def)
  moreover have "quality_alert sample_platform (pd_with_score 70)
       \<noteq> quality_alert sample_platform (pd_with_score 69)"
    by (simp add: quality_alert_def pd_with_score_def)
  moreover have "alert_type (quality_alert sample_platform (pd_with_score 69)) = QUALITY_LOW
   \<and> alert_severity (quality_alert sample_platform (pd_with_score 69)) = medium
   \<and> alert_message (quality_alert sample_platform (pd_with_score 69)) = ''Low quality score: 69''"
    by (simp add: quality_alert_def pd_with_score_def sample_defs)
  ultimately show ?thesis using aw s69 s70 by blast
qed

text \<open>
  Claim C7 as stated fails in a batch where another reading throws: the reading one hour
  old is processed with a score of 65, the humidity of 200 throws, and the flush emits
  no alert.
\<close>

theorem score_65_in_failing_batch_without_alert:
  "\<not> isl (processSensorReading sample_platform sample_now reading_stale)
   \<and> qualityScore (projr (processSensorReading sample_platform sample_now reading_stale)) = 65
   \<and> processingQueue queue_stale_bad = [reading_stale, reading_humidity_200]
   \<and> processQueue sample_platform sample_now queue_stale_bad =
       (new_DataProcessor,
        [Log_info_processing_batch 2,
         Log_error_reading (Error ''Invalid humidity value''),
         Log_error_batch (Error ''Invalid humidity value'')])"
  by (simp add: sample_stale_score)
     (simp add: queue_stale_bad_def processQueue_def processQueue_call_def
        processQueue_resume_def splice0_def processing_defs sample_defs)

section \<open>The exceptions of one reading\<close>

text \<open>After a successful validation no later step throws: a location value is then an
  object, so reading its coordinates cannot fail. The exceptions of
  \<open>processSensorReading\<close> are exactly those of \<open>validateReading\<close>.\<close>

lemma js_prop_object: "typeof v = ''object'' \<Longrightarrow> v \<noteq> JNull \<Longrightarrow> \<exists>w. js_prop v k = Inr w"
  by (cases v) simp_all

lemma validated_metrics_defined:
  assumes "validateReading P reading = Inr ()"
  shows "\<exists>m. calculateDerivedMetrics P reading = Inr m"
proof (cases "sensorType reading = ''location''")
  case True
  with assms have obj: "typeof (reading_value reading) = ''object''"
    and nn: "reading_value reading \<noteq> JNull"
    by (auto simp: validateReading_def split: if_splits)
  from js_prop_object [OF obj nn]
  obtain lat lon acc where "js_prop (reading_value reading) ''latitude'' = Inr lat"
    and "js_prop (reading_value reading) ''longitude'' = Inr lon"
    and "js_prop (reading_value reading) ''accuracy'' = Inr acc"
    by blast
  with True show ?thesis by (simp add: calculateDerivedMetrics_def)
next
  case False
  then show ?thesis by (simp add: calculateDerivedMetrics_def)
qed

lemma processSensorReading_fails_iff:
  "processSensorReading P now reading = Inl e \<longleftrightarrow> validateReading P reading = Inl e"
proof (cases "validateReading P reading")
  case (Inl e')
  then show ?thesis by (simp add: processSensorReading_def)
next
  case (Inr u)
  then have "validateReading P reading = Inr ()" by simp
  from validated_metrics_defined [OF this] Inr show ?thesis
    by (auto simp: processSensorReading_def)
qed

section \<open>The batcher\<close>

lemma flush_starts_reading_error_logs: "filter is_flush_start (reading_error_logs rs) = []"
  by (rule flush_count_reading_error_logs)

text \<open>\<open>addToQueue\<close> in full: a flush starts exactly when the length has reached the
  batch size and no flush is in progress.\<close>

lemma addToQueue_cases:
  fixes st :: processor_state and r :: sensor_reading and q
  defines "q \<equiv> processingQueue st @ [r]"
  shows "addToQueue P now st r =
     (if batchSize st \<le> length q \<and> \<not> isProcessing st
      then (st \<lparr> processingQueue := drop (batchSize st) q, isProcessing := True,
                  awaited := Some (map (processSensorReading P now) (take (batchSize st) q)) \<rparr>,
            Log_info_processing_batch (min (batchSize st) (length q))
            # reading_error_logs (map (processSensorReading P now) (take (batchSize st) q)))
      else (st \<lparr> processingQueue := q \<rparr>, []))"
proof -
  have ne: "q \<noteq> []" by (simp add: q_def)
  have unfold: "addToQueue P now st r =
      (if batchSize st \<le> length q then processQueue_call P now (st \<lparr> processingQueue := q \<rparr>)
       else (st \<lparr> processingQueue := q \<rparr>, []))"
    by (simp add: addToQueue_def Let_def q_def)
  have busy: "processQueue_call P now (st \<lparr> processingQueue := q \<rparr>)
                = (st \<lparr> processingQueue := q \<rparr>, [])" if "isProcessing st"
    using that by (simp add: processQueue_call_idle)
  have idle: "processQueue_call P now (st \<lparr> processingQueue := q \<rparr>)
      = (st \<lparr> processingQueue := drop (batchSize st) q, isProcessing := True,
              awaited := Some (map (processSensorReading P now) (take (batchSize st) q)) \<rparr>,
         Log_info_processing_batch (min (batchSize st) (length q))
         # reading_error_logs (map (processSensorReading P now) (take (batchSize st) q)))"
    if "\<not> isProcessing st"
  proof -
    let ?st' = "st \<lparr> processingQueue := q \<rparr>"
    have "\<not> isProcessing ?st'" and "processingQueue ?st' \<noteq> []"
      using that ne by simp_all
    from processQueue_call_runs [OF this, of P now] show ?thesis
      by (simp add: min.commute)
  qed
  show ?thesis
    using unfold busy idle by (cases "isProcessing st") simp_all
qed

lemma addToQueue_queue:
  fixes st :: processor_state and r :: sensor_reading and q
  defines "q \<equiv> processingQueue st @ [r]"
  shows "processingQueue (fst (addToQueue P now st r)) =
     (if batchSize st \<le> length q \<and> \<not> isProcessing st
      then drop (min (batchSize st) (length q)) q
      else q)"
  by (simp add: addToQueue_cases [of P now st r, folded q_def] min_absorb1)

lemma addToQueue_flush_starts:
  fixes st :: processor_state and r :: sensor_reading and q
  defines "q \<equiv> processingQueue st @ [r]"
  shows "filter is_flush_start (snd (addToQueue P now st r)) =
     (if batchSize st \<le> length q \<and> \<not> isProcessing st
      then [Log_info_processing_batch (min (batchSize st) (length q))]
      else [])"
  by (simp add: addToQueue_cases [of P now st r, folded q_def] flush_starts_reading_error_logs)

lemma addToQueue_isProcessing:
  fixes st :: processor_state and r :: sensor_reading and q
  defines "q \<equiv> processingQueue st @ [r]"
  shows "isProcessing (fst (addToQueue P now st r)) =
     (isProcessing st \<or> batchSize st \<le> length q)"
  by (auto simp: addToQueue_cases [of P now st r, folded q_def])

lemma addToQueue_batchSize: "batchSize (fst (addToQueue P now st r)) = batchSize st"
  by (simp add: addToQueue_cases)

lemma processQueue_resume_state:
  "processingQueue (fst (processQueue_resume P st)) = processingQueue st
   \<and> batchSize (fst (processQueue_resume P st)) = batchSize st
   \<and> (isProcessing (fst (processQueue_resume P st)) \<longrightarrow> isProcessing st)
   \<and> filter is_flush_start (snd (processQueue_resume P st)) = []"
  by (simp add: processQueue_resume_def Let_def split: option.split sum.split)

lemma run_append:
  "run P st (xs @ ys) =
     (let (st1, ev1) = run P st xs; (st2, ev2) = run P st1 ys in (st2, ev1 @ ev2))"
  by (induction xs arbitrary: st) (simp_all add: Let_def split: prod.splits)

lemma run_snoc_fst: "fst (run P st (xs @ [s])) = fst (step P (fst (run P st xs)) s)"
  by (simp add: run_append Let_def split: prod.splits)

lemma run_snoc_snd:
  "snd (run P st (xs @ [s])) = snd (run P st xs) @ snd (step P (fst (run P st xs)) s)"
  by (simp add: run_append Let_def split: prod.splits)

lemma enqueued_append: "enqueued (xs @ ys) = enqueued xs @ enqueued ys"
  by (induction xs rule: enqueued.induct) simp_all

text \<open>Fewer than two batches enqueued, from an empty idle queue, no timer: the first
  \<open>b\<close> readings are flushed when the \<open>b\<close>-th arrives, whenever the continuation runs.\<close>

lemma run_below_two_batches:
  assumes "\<forall>s \<in> set steps. \<not> is_timer s"
    and "\<not> isProcessing st" and "processingQueue st = []" and "0 < batchSize st"
    and "length (enqueued steps) < 2 * batchSize st"
  shows "batchSize (fst (run P st steps)) = batchSize st
         \<and> processingQueue (fst (run P st steps))
             = (if length (enqueued steps) < batchSize st then enqueued steps
                else drop (batchSize st) (enqueued steps))
         \<and> filter is_flush_start (snd (run P st steps))
             = (if length (enqueued steps) < batchSize st then []
                else [Log_info_processing_batch (batchSize st)])
         \<and> (length (enqueued steps) < batchSize st \<longrightarrow> \<not> isProcessing (fst (run P st steps)))"
  using assms(1,5)
proof (induction steps rule: rev_induct)
  case Nil
  then show ?case using assms(2,3) by simp
next
  case (snoc s steps)
  let ?st = "fst (run P st steps)"
  let ?rs = "enqueued steps"
  from snoc.prems have nt: "\<forall>s \<in> set steps. \<not> is_timer s" and s_nt: "\<not> is_timer s"
    by simp_all
  from snoc.prems(2) have len: "length ?rs < 2 * batchSize st"
    by (simp add: enqueued_append)
  note IH = snoc.IH [OF nt len]
  show ?case
  proof (cases s)
    case (Enqueue now r)
    with snoc.prems(2) have len': "length ?rs + 1 < 2 * batchSize st"
      by (simp add: enqueued_append)
    show ?thesis
    proof (cases "length ?rs < batchSize st")
      case True
      with IH have q: "processingQueue ?st = ?rs" and idle: "\<not> isProcessing ?st"
        and b: "batchSize ?st = batchSize st"
        and ev: "filter is_flush_start (snd (run P st steps)) = []"
        by simp_all
      show ?thesis
        using True q idle b ev Enqueue
        by (auto simp: run_snoc_fst run_snoc_snd enqueued_append addToQueue_queue
              addToQueue_flush_starts addToQueue_isProcessing addToQueue_batchSize)
    next
      case False
      with IH have q: "processingQueue ?st = drop (batchSize st) ?rs"
        and b: "batchSize ?st = batchSize st"
        and ev: "filter is_flush_start (snd (run P st steps))
                   = [Log_info_processing_batch (batchSize st)]"
        by simp_all
      show ?thesis
        using False q b ev Enqueue len'
        by (auto simp: run_snoc_fst run_snoc_snd enqueued_append addToQueue_queue
              addToQueue_flush_starts addToQueue_batchSize)
    qed
  next
    case Continuation
    with IH processQueue_resume_state [of P ?st] show ?thesis
      by (auto simp: run_snoc_fst run_snoc_snd enqueued_append)
  next
    case (Timer now)
    with s_nt show ?thesis by simp
  qed
qed
text \<open>The call of \<open>processQueue\<close> that starts a flush, on a queue of any length.\<close>

lemma processQueue_call_flush:
  assumes "\<not> isProcessing st" and "processingQueue st \<noteq> []"
  shows "processingQueue (fst (processQueue_call P now st))
           = drop (min (batchSize st) (length (processingQueue st))) (processingQueue st)
         \<and> awaited (fst (processQueue_call P now st))
           = Some (map (processSensorReading P now)
                     (take (min (batchSize st) (length (processingQueue st)))
                        (processingQueue st)))
         \<and> snd (processQueue_call P now st)
           = Log_info_processing_batch (min (batchSize st) (length (processingQueue st)))
             # reading_error_logs
                 (map (processSensorReading P now)
                    (take (min (batchSize st) (length (processingQueue st)))
                       (processingQueue st)))
         \<and> isProcessing (fst (processQueue_call P now st))"
proof -
  have t: "take (min (batchSize st) (length (processingQueue st))) (processingQueue st)
             = take (batchSize st) (processingQueue st)"
    by (simp add: min_def)
  have d: "drop (min (batchSize st) (length (processingQueue st))) (processingQueue st)
             = drop (batchSize st) (processingQueue st)"
    by (simp add: min_def)
  show ?thesis
    unfolding t d by (simp add: processQueue_call_runs [OF assms] min.commute)
qed

text \<open>
  Claim C5, as amended. \<open>addToQueue\<close> appends the reading, and starts a flush exactly
  when the queue length has reached the batch size \<open>b\<close> and no flush is in progress. A
  flush that starts (from \<open>addToQueue\<close> or from the timer, on a queue of any length)
  removes exactly the \<open>min b (length queue)\<close> oldest readings in insertion order as its
  batch and leaves the rest queued; a call while a flush is in progress or on an empty
  queue does nothing; the continuation does not touch the queue. With \<open>b = 3\<close>, an
  empty idle queue, no timer and the continuation running whenever it may: after two
  readings no flush has started; after three exactly one, of three readings, and the
  queue is empty; after five still exactly that one, and the last two readings are
  queued.
\<close>

theorem addToQueue_flushes_at_batchSize:
  "processingQueue (fst (addToQueue P now st r))
     = (if batchSize st \<le> length (processingQueue st @ [r]) \<and> \<not> isProcessing st
        then drop (min (batchSize st) (length (processingQueue st @ [r])))
               (processingQueue st @ [r])
        else processingQueue st @ [r])
   \<and> filter is_flush_start (snd (addToQueue P now st r))
     = (if batchSize st \<le> length (processingQueue st @ [r]) \<and> \<not> isProcessing st
        then [Log_info_processing_batch
                (min (batchSize st) (length (processingQueue st @ [r])))]
        else [])
   \<and> (\<not> isProcessing st' \<and> processingQueue st' \<noteq> [] \<longrightarrow>
        processingQueue (fst (processQueue_call P now st'))
          = drop (min (batchSize st') (length (processingQueue st'))) (processingQueue st')
        \<and> awaited (fst (processQueue_call P now st'))
          = Some (map (processSensorReading P now)
                    (take (min (batchSize st') (length (processingQueue st')))
                       (processingQueue st')))
        \<and> snd (processQueue_call P now st')
          = Log_info_processing_batch (min (batchSize st') (length (processingQueue st')))
            # reading_error_logs
                (map (processSensorReading P now)
                   (take (min (batchSize st') (length (processingQueue st')))
                      (processingQueue st')))
        \<and> isProcessing (fst (processQueue_call P now st')))
   \<and> (isProcessing st' \<or> processingQueue st' = [] \<longrightarrow> processQueue_call P now st' = (st', []))
   \<and> processingQueue (fst (processQueue_resume P st')) = processingQueue st'
   \<and> filter is_flush_start (snd (processQueue_resume P st')) = []
   \<and> (\<not> isProcessing st0 \<and> processingQueue st0 = [] \<and> batchSize st0 = 3 \<longrightarrow>
        (\<forall>steps. (\<forall>s \<in> set steps. \<not> is_timer s) \<longrightarrow>
           (enqueued steps = [r1, r2] \<longrightarrow>
              filter is_flush_start (snd (run P st0 steps)) = []
              \<and> processingQueue (fst (run P st0 steps)) = [r1, r2])
           \<and> (enqueued steps = [r1, r2, r3] \<longrightarrow>
              filter is_flush_start (snd (run P st0 steps)) = [Log_info_processing_batch 3]
              \<and> processingQueue (fst (run P st0 steps)) = [])
           \<and> (enqueued steps = [r1, r2, r3, r4, r5] \<longrightarrow>
              filter is_flush_start (snd (run P st0 steps)) = [Log_info_processing_batch 3]
              \<and> processingQueue (fst (run P st0 steps)) = [r4, r5])))"
proof -
  have a: "processingQueue (fst (addToQueue P now st r))
     = (if batchSize st \<le> length (processingQueue st @ [r]) \<and> \<not> isProcessing st
        then drop (min (batchSize st) (length (processingQueue st @ [r])))
               (processingQueue st @ [r])
        else processingQueue st @ [r])"
    by (rule addToQueue_queue)
  have b: "filter is_flush_start (snd (addToQueue P now st r))
     = (if batchSize st \<le> length (processingQueue st @ [r]) \<and> \<not> isProcessing st
        then [Log_info_processing_batch
                (min (batchSize st) (length (processingQueue st @ [r])))]
        else [])"
    by (rule addToQueue_flush_starts)
  note c = processQueue_call_flush [of st' P now]
  have d: "isProcessing st' \<or> processingQueue st' = [] \<longrightarrow> processQueue_call P now st' = (st', [])"
    using processQueue_call_idle [of st' P now] by blast
  note e = processQueue_resume_state [of P st']
  have f: "(enqueued steps = [r1, r2] \<longrightarrow>
              filter is_flush_start (snd (run P st0 steps)) = []
              \<and> processingQueue (fst (run P st0 steps)) = [r1, r2])
           \<and> (enqueued steps = [r1, r2, r3] \<longrightarrow>
              filter is_flush_start (snd (run P st0 steps)) = [Log_info_processing_batch 3]
              \<and> processingQueue (fst (run P st0 steps)) = [])
           \<and> (enqueued steps = [r1, r2, r3, r4, r5] \<longrightarrow>
              filter is_flush_start (snd (run P st0 steps)) = [Log_info_processing_batch 3]
              \<and> processingQueue (fst (run P st0 steps)) = [r4, r5])"
    if idle: "\<not> isProcessing st0" and empty: "processingQueue st0 = []"
      and three: "batchSize st0 = 3" and nt: "\<forall>s \<in> set steps. \<not> is_timer s"
    for steps
  proof -
    have pos: "0 < batchSize st0" using three by simp
    have r: "length (enqueued steps) < 2 * batchSize st0 \<Longrightarrow>
         processingQueue (fst (run P st0 steps))
             = (if length (enqueued steps) < batchSize st0 then enqueued steps
                else drop (batchSize st0) (enqueued steps))
         \<and> filter is_flush_start (snd (run P st0 steps))
             = (if length (enqueued steps) < batchSize st0 then []
                else [Log_info_processing_batch (batchSize st0)])"
      using run_below_two_batches [OF nt idle empty pos, of P] by blast
    show ?thesis using r three by auto
  qed
  from a b c d e f show ?thesis by blast
qed

text \<open>Five sample readings into a processor of batch size 3, the continuation running
  after the third; and the timer's flush of a queue of one reading.\<close>

theorem addToQueue_flushes_at_batchSize_witness:
  "\<not> isProcessing processor_batch3
   \<and> processingQueue processor_batch3 = []
   \<and> batchSize processor_batch3 = 3
   \<and> (\<forall>s \<in> set five_enqueues_resumed. \<not> is_timer s) = True
   \<and> enqueued five_enqueues_resumed
        = [reading_fresh, reading_stale, reading_zero, reading_ahead, reading_future]
   \<and> filter is_flush_start (snd (run sample_platform processor_batch3 five_enqueues_resumed))
        = [Log_info_processing_batch 3]
   \<and> processingQueue (fst (run sample_platform processor_batch3 five_enqueues_resumed))
        = [reading_ahead, reading_future]
   \<and> \<not> isProcessing queue_of_one
   \<and> processingQueue queue_of_one = [reading_fresh]
   \<and> processingQueue (fst (processQueue_call sample_platform sample_now queue_of_one)) = []
   \<and> filter is_flush_start (snd (processQueue_call sample_platform sample_now queue_of_one))
        = [Log_info_processing_batch 1]"
proof -
  have idle: "\<not> isProcessing processor_batch3"
    by (simp add: processor_batch3_def new_DataProcessor_def)
  have empty: "processingQueue processor_batch3 = []"
    by (simp add: processor_batch3_def new_DataProcessor_def)
  have three: "batchSize processor_batch3 = 3"
    by (simp add: processor_batch3_def new_DataProcessor_def)
  have nt: "\<forall>s \<in> set five_enqueues_resumed. \<not> is_timer s"
    by (simp add: five_enqueues_resumed_def)
  have enq: "enqueued five_enqueues_resumed
        = [reading_fresh, reading_stale, reading_zero, reading_ahead, reading_future]"
    by (simp add: five_enqueues_resumed_def)
  have idle1: "\<not> isProcessing queue_of_one"
    by (simp add: queue_of_one_def processor_batch3_def new_DataProcessor_def)
  have q1: "processingQueue queue_of_one = [reading_fresh]"
    by (simp add: queue_of_one_def)
  have b1: "batchSize queue_of_one = 3"
    by (simp add: queue_of_one_def processor_batch3_def new_DataProcessor_def)
  note inst = addToQueue_flushes_at_batchSize
    [of sample_platform sample_now processor_batch3 reading_fresh queue_of_one
        processor_batch3 reading_fresh reading_stale reading_zero reading_ahead reading_future]
  from inst idle empty three nt enq
  have five: "filter is_flush_start
                 (snd (run sample_platform processor_batch3 five_enqueues_resumed))
                = [Log_info_processing_batch 3]
        \<and> processingQueue (fst (run sample_platform processor_batch3 five_enqueues_resumed))
            = [reading_ahead, reading_future]"
    by blast
  from inst idle1 q1
  have "processingQueue (fst (processQueue_call sample_platform sample_now queue_of_one))
          = drop (min (batchSize queue_of_one) (length (processingQueue queue_of_one)))
              (processingQueue queue_of_one)
        \<and> snd (processQueue_call sample_platform sample_now queue_of_one)
          = Log_info_processing_batch
              (min (batchSize queue_of_one) (length (processingQueue queue_of_one)))
            # reading_error_logs
                (map (processSensorReading sample_platform sample_now)
                   (take (min (batchSize queue_of_one) (length (processingQueue queue_of_one)))
                      (processingQueue queue_of_one)))"
    by simp
  then have short: "processingQueue
                      (fst (processQueue_call sample_platform sample_now queue_of_one)) = []
      \<and> filter is_flush_start (snd (processQueue_call sample_platform sample_now queue_of_one))
          = [Log_info_processing_batch 1]"
    by (simp add: q1 b1 flush_starts_reading_error_logs)
  from idle empty three nt enq five idle1 q1 short show ?thesis by simp
qed

lemma run_Cons_fst: "fst (run P st (s # ss)) = fst (run P (fst (step P st s)) ss)"
  by (simp add: Let_def split: prod.splits)

lemma run_Cons_flush_starts:
  "filter is_flush_start (snd (run P st (s # ss))) =
     filter is_flush_start (snd (step P st s))
     @ filter is_flush_start (snd (run P (fst (step P st s)) ss))"
  by (simp add: Let_def split: prod.splits)

text \<open>
  Claim C5 as stated fails while a flush is in progress. Six readings are enqueued with
  batch size 3 before the continuation of the first flush runs: the sixth brings the
  queue length to 3, and no second flush starts.
\<close>

theorem sixth_enqueue_does_not_flush:
  "batchSize processor_batch3 = 3
   \<and> enqueued six_enqueues
        = [reading_fresh, reading_stale, reading_zero, reading_ahead, reading_future,
           reading_minus_40]
   \<and> processingQueue (fst (run sample_platform processor_batch3 six_enqueues))
        = [reading_ahead, reading_future, reading_minus_40]
   \<and> filter is_flush_start (snd (run sample_platform processor_batch3 six_enqueues))
        = [Log_info_processing_batch 3]
   \<and> isProcessing (fst (run sample_platform processor_batch3 six_enqueues))"
  by (simp add: six_enqueues_def processor_batch3_def new_DataProcessor_def
        run_Cons_fst run_Cons_flush_starts addToQueue_cases flush_starts_reading_error_logs
        del: run.simps(2))

end
